theory Spec2Isabelle
  imports Complex_Main "HOL-Library.AList"
begin

section \<open>Numeric values\<close>

text \<open>
  A cell of a table is a double. The model keeps the special values of IEEE 754
  (not-a-number and the two infinities) and takes every finite double as the real
  number it stands for: rounding, overflow and the sign of zero are not modelled, so
  "equal within floating tolerance" reads as equality here.
\<close>

datatype float64 = Fin real | PInf | NInf | NaN

fun isfinite :: "float64 \<Rightarrow> bool" where
  "isfinite (Fin _) = True"
| "isfinite _ = False"

text \<open>\<^verbatim>\<open>pd.isnull\<close>: only not-a-number counts as missing, an infinity does not.\<close>

fun isnull :: "float64 \<Rightarrow> bool" where
  "isnull NaN = True"
| "isnull _ = False"

definition inf_sign :: "real \<Rightarrow> float64" where
  "inf_sign s = (if 0 < s then PInf else if s < 0 then NInf else NaN)"

fun sgn_of :: "float64 \<Rightarrow> real" where
  "sgn_of (Fin a) = sgn a"
| "sgn_of PInf = 1"
| "sgn_of NInf = - 1"
| "sgn_of NaN = 0"

fun fmul :: "float64 \<Rightarrow> float64 \<Rightarrow> float64" where
  "fmul NaN _ = NaN"
| "fmul _ NaN = NaN"
| "fmul (Fin a) (Fin b) = Fin (a * b)"
| "fmul x y = inf_sign (sgn_of x * sgn_of y)"

fun fadd :: "float64 \<Rightarrow> float64 \<Rightarrow> float64" where
  "fadd NaN _ = NaN"
| "fadd _ NaN = NaN"
| "fadd (Fin a) (Fin b) = Fin (a + b)"
| "fadd (Fin _) y = y"
| "fadd x (Fin _) = x"
| "fadd x y = (if x = y then x else NaN)"

text \<open>Division as numpy does it: a zero divisor gives an infinity or not-a-number,
  never an exception.\<close>

fun fdiv :: "float64 \<Rightarrow> float64 \<Rightarrow> float64" where
  "fdiv NaN _ = NaN"
| "fdiv _ NaN = NaN"
| "fdiv (Fin a) (Fin b) = (if b = 0 then inf_sign a else Fin (a / b))"
| "fdiv (Fin _) _ = Fin 0"
| "fdiv x (Fin b) = (if b = 0 then x else inf_sign (sgn_of x * b))"
| "fdiv _ _ = NaN"

fun fexp :: "float64 \<Rightarrow> float64" where
  "fexp (Fin a) = Fin (exp a)"
| "fexp PInf = PInf"
| "fexp NInf = Fin 0"
| "fexp NaN = NaN"

fun flog :: "float64 \<Rightarrow> float64" where
  "flog (Fin a) = (if 0 < a then Fin (ln a) else if a = 0 then NInf else NaN)"
| "flog PInf = PInf"
| "flog _ = NaN"

text \<open>The comparisons with \<^verbatim>\<open>0.0\<close>; every comparison with not-a-number is false.\<close>

fun lt0 :: "float64 \<Rightarrow> bool" where
  "lt0 (Fin a) = (a < 0)"
| "lt0 NInf = True"
| "lt0 _ = False"

fun le0 :: "float64 \<Rightarrow> bool" where
  "le0 (Fin a) = (a \<le> 0)"
| "le0 NInf = True"
| "le0 _ = False"

fun eq0 :: "float64 \<Rightarrow> bool" where
  "eq0 (Fin a) = (a = 0)"
| "eq0 _ = False"

section \<open>Errors\<close>

text \<open>
  Every exception the code raises is a value. A message that is a fixed string is kept;
  \<open>IncompatibleCompounds\<close> is the \<^verbatim>\<open>ValueError\<close> of \<^verbatim>\<open>oxide_conversion\<close> with the two
  lists of elements its message shows, \<open>ColumnsNotAttained\<close> the failed assertion at the
  end of \<^verbatim>\<open>convert_chemistry\<close> with the names its message lists. \<open>ExternalError\<close> is
  whatever a collaborator outside this module raises (an unparsable formula, an element
  without ionic radius, ...).
\<close>

datatype error =
    ValueError string
  | IncompatibleCompounds "string list" "string list"
  | NotImplementedError string
  | ColumnsNotAttained "string list"
  | AssertionError
  | KeyError string
  | IndexError
  | ZeroDivisionError
  | TypeError string
  | ExternalError string

definition ebind :: "error + 'a \<Rightarrow> ('a \<Rightarrow> error + 'b) \<Rightarrow> error + 'b" where
  "ebind m f = (case m of Inl e \<Rightarrow> Inl e | Inr x \<Rightarrow> f x)"

fun emap :: "('a \<Rightarrow> error + 'b) \<Rightarrow> 'a list \<Rightarrow> error + 'b list" where
  "emap f [] = Inr []"
| "emap f (x # xs) = ebind (f x) (\<lambda>y. ebind (emap f xs) (\<lambda>ys. Inr (y # ys)))"

section \<open>Tables\<close>

text \<open>
  A series maps the row positions of the table it belongs to onto values; a table is its
  number of rows and its columns in order, each a name and a series. Only the positions
  below \<open>nrows\<close> are rows of the table.
\<close>

type_synonym series = "nat \<Rightarrow> float64"

record frame =
  nrows :: nat
  cols :: "(string \<times> series) list"

record named_series =
  sname :: string
  svals :: series

definition columns :: "frame \<Rightarrow> string list" where
  "columns df = map fst (cols df)"

definition getcol :: "frame \<Rightarrow> string \<Rightarrow> series option" where
  "getcol df c = map_of (cols df) c"

text \<open>\<^verbatim>\<open>df[c] = s\<close>: an existing column keeps its place, a new one goes last.\<close>

definition setcol :: "frame \<Rightarrow> string \<Rightarrow> series \<Rightarrow> frame" where
  "setcol df c s = df\<lparr>cols := AList.update c s (cols df)\<rparr>"

definition drop_columns :: "frame \<Rightarrow> string list \<Rightarrow> frame" where
  "drop_columns df ds = df\<lparr>cols := filter (\<lambda>(c, _). c \<notin> set ds) (cols df)\<rparr>"

section \<open>The collaborators outside this module\<close>

text \<open>
  \<^verbatim>\<open>periodictable.formula\<close> resolves a name to the atoms of the compound and its
  molecular weight.
\<close>

record formula =
  atoms :: "(string \<times> real) list"
  mass :: real

type_synonym refcomp = "string \<Rightarrow> real option"

text \<open>
  The functions this module imports from elsewhere are parameters of the model:
  the formula parser, the cation and oxide tables of \<^verbatim>\<open>geochem.ind\<close>, the text helpers,
  \<^verbatim>\<open>renormalise\<close>, the reference compositions, and the fitting routines of
  \<^verbatim>\<open>util.math\<close>.
\<close>

record env =
  formula_of :: "string \<Rightarrow> error + formula"
  get_cations :: "string \<Rightarrow> string \<Rightarrow> error + string list"
  simple_oxides :: "string \<Rightarrow> error + string list"
  remove_suffix :: "string \<Rightarrow> string \<Rightarrow> string"
  titlecase :: "string \<Rightarrow> string"
  renormalise :: "frame \<Rightarrow> frame"
  common_oxides :: "string list"
  common_elements :: "string list"
  get_reference_composition :: "string \<Rightarrow> error + refcomp"
  set_units :: "refcomp \<Rightarrow> string \<Rightarrow> refcomp"
  REE :: "string list"
  get_ionic_radii :: "string list \<Rightarrow> error + real list"
  OP_constants :: "real list \<Rightarrow> nat \<Rightarrow> error + real list list"
  lambdas :: "float64 list \<Rightarrow> real list \<Rightarrow> real list list \<Rightarrow> nat \<Rightarrow> error + float64 list"
  lambda_poly_func :: "float64 list \<Rightarrow> real list \<Rightarrow> real list list \<Rightarrow> nat \<Rightarrow> (real \<Rightarrow> real)"

section \<open>Conversion factors\<close>

text \<open>
  \<^verbatim>\<open>oxide_conversion\<close> checks the two compounds when it is called and returns the
  function \<^verbatim>\<open>convert_series\<close>, which computes the factor each time it is applied.
  \<open>conversion\<close> is that closure: what \<^verbatim>\<open>convert_series\<close> has captured.
\<close>

record conversion =
  cation_coefficient :: real
  mass_in :: real
  mass_out :: real
  molecular_default :: bool

definition non_oxygen :: "formula \<Rightarrow> (string \<times> real) list" where
  "non_oxygen f = filter (\<lambda>(k, v). k \<noteq> ''O'') (atoms f)"

definition pydiv :: "real \<Rightarrow> real \<Rightarrow> error + real" where
  "pydiv a b = (if b = 0 then Inl ZeroDivisionError else Inr (a / b))"

definition oxide_conversion :: "env \<Rightarrow> string \<Rightarrow> string \<Rightarrow> bool \<Rightarrow> error + conversion" where
  "oxide_conversion E oxin oxout molecular =
     ebind (formula_of E oxin) (\<lambda>fin.
     ebind (formula_of E oxout) (\<lambda>fout.
       let inatoms = non_oxygen fin; in_els = map fst inatoms;
           outatoms = non_oxygen fout; out_els = map fst outatoms
       in if \<not> (length in_els = length out_els \<and> length in_els = 1 \<and> set in_els = set out_els)
          then Inl (IncompatibleCompounds in_els out_els)
          else ebind (pydiv (snd (hd inatoms)) (snd (hd outatoms))) (\<lambda>c.
               Inr \<lparr>cation_coefficient = c, mass_in = mass fin, mass_out = mass fout,
                    molecular_default = molecular\<rparr>)))"

text \<open>The factor \<^verbatim>\<open>convert_series\<close> multiplies by.\<close>

definition conversion_factor :: "conversion \<Rightarrow> error + real" where
  "conversion_factor cv =
     (if molecular_default cv then Inr (cation_coefficient cv)
      else pydiv (cation_coefficient cv * mass_out cv) (mass_in cv))"

text \<open>\<^verbatim>\<open>convert_series\<close> applied to one value.\<close>

definition convert_series :: "conversion \<Rightarrow> float64 \<Rightarrow> error + float64" where
  "convert_series cv x = ebind (conversion_factor cv) (\<lambda>f. Inr (fmul x (Fin f)))"

text \<open>The scalar factor of a pair of compounds: the factory, then the factor of its
  closure.\<close>

definition factor :: "env \<Rightarrow> string \<Rightarrow> string \<Rightarrow> bool \<Rightarrow> error + real" where
  "factor E oxin oxout molecular = ebind (oxide_conversion E oxin oxout molecular) conversion_factor"

section \<open>Whole-table helpers of pandas\<close>

text \<open>A column known to be present; \<open>loc_columns\<close> is \<^verbatim>\<open>df.loc[:, names]\<close>, which
  raises for a name that is no column.\<close>

definition column :: "frame \<Rightarrow> string \<Rightarrow> series" where
  "column df c = (case getcol df c of Some s \<Rightarrow> s | None \<Rightarrow> (\<lambda>_. NaN))"

definition loc_columns :: "frame \<Rightarrow> string list \<Rightarrow> error + frame" where
  "loc_columns df names =
     (case filter (\<lambda>c. c \<notin> set (columns df)) names of
        [] \<Rightarrow> Inr (df\<lparr>cols := map (\<lambda>c. (c, column df c)) names\<rparr>)
      | c # _ \<Rightarrow> Inl (KeyError c))"

definition applymap :: "(float64 \<Rightarrow> float64) \<Rightarrow> frame \<Rightarrow> frame" where
  "applymap f df = df\<lparr>cols := map (\<lambda>(c, s). (c, \<lambda>i. f (s i))) (cols df)\<rparr>"

text \<open>\<^verbatim>\<open>x[mask] = v\<close> on a table and on a series.\<close>

definition frame_mask_set :: "(float64 \<Rightarrow> bool) \<Rightarrow> float64 \<Rightarrow> frame \<Rightarrow> frame" where
  "frame_mask_set P v df = applymap (\<lambda>x. if P x then v else x) df"

definition series_mask_set :: "(float64 \<Rightarrow> bool) \<Rightarrow> float64 \<Rightarrow> series \<Rightarrow> series" where
  "series_mask_set P v s = (\<lambda>i. if P (s i) then v else s i)"

text \<open>\<^verbatim>\<open>sum(axis=1)\<close>: the sum of each row, missing values skipped.\<close>

definition nansum :: "float64 list \<Rightarrow> float64" where
  "nansum xs = foldl fadd (Fin 0) (filter (\<lambda>x. \<not> isnull x) xs)"

definition row_values :: "frame \<Rightarrow> nat \<Rightarrow> float64 list" where
  "row_values df i = map (\<lambda>(c, s). s i) (cols df)"

definition sum_axis1 :: "frame \<Rightarrow> series" where
  "sum_axis1 df = (\<lambda>i. nansum (row_values df i))"

definition assign_columns :: "frame \<Rightarrow> (string \<times> series) list \<Rightarrow> frame" where
  "assign_columns df cs = fold (\<lambda>(c, s) f. setcol f c s) cs df"

text \<open>
  \<^verbatim>\<open>Series.apply(convert_series)\<close> calls the conversion once per row, so a series
  without rows never evaluates the factor.
\<close>

definition apply_conversion :: "nat \<Rightarrow> conversion \<Rightarrow> series \<Rightarrow> error + series" where
  "apply_conversion n cv s =
     (if n = 0 then Inr s
      else ebind (conversion_factor cv) (\<lambda>f. Inr (\<lambda>i. fmul (s i) (Fin f))))"

text \<open>
  Modelled from the spec: \<^verbatim>\<open>close\<close> of \<^verbatim>\<open>comp.codata\<close> is not among the sources; the
  spec has the proportions of a mapping "renormalized to sum 1 (closure)": each value
  divided by the sum of all of them, as a numpy division.
\<close>

definition close :: "real list \<Rightarrow> float64 list" where
  "close vs = map (\<lambda>v. fdiv (Fin v) (Fin (sum_list vs))) vs"

section \<open>Unit/basis conversion\<close>

definition molecular_weights :: "env \<Rightarrow> frame \<Rightarrow> error + real list" where
  "molecular_weights E df = emap (\<lambda>c. ebind (formula_of E c) (\<lambda>f. Inr (mass f))) (columns df)"

definition div_columns :: "frame \<Rightarrow> real list \<Rightarrow> frame" where
  "div_columns df ws = df\<lparr>cols := map (\<lambda>((c, s), w). (c, \<lambda>i. fdiv (s i) (Fin w))) (zip (cols df) ws)\<rparr>"

definition mul_columns :: "frame \<Rightarrow> real list \<Rightarrow> frame" where
  "mul_columns df ws = df\<lparr>cols := map (\<lambda>((c, s), w). (c, \<lambda>i. fmul (s i) (Fin w))) (zip (cols df) ws)\<rparr>"

definition to_molecular :: "env \<Rightarrow> frame \<Rightarrow> bool \<Rightarrow> error + frame" where
  "to_molecular E df renorm =
     ebind (molecular_weights E df) (\<lambda>MWs.
       if renorm then Inr (renormalise E (div_columns df MWs)) else Inr (div_columns df MWs))"

definition to_weight :: "env \<Rightarrow> frame \<Rightarrow> bool \<Rightarrow> error + frame" where
  "to_weight E df renorm =
     ebind (molecular_weights E df) (\<lambda>MWs.
       if renorm then Inr (renormalise E (mul_columns df MWs)) else Inr (mul_columns df MWs))"

section \<open>Elemental aggregation\<close>

text \<open>
  What \<^verbatim>\<open>to\<close> and \<^verbatim>\<open>component\<close> can be: a string, an element or formula object
  (given by its string form), a mapping from names to proportions in insertion order,
  or a list or tuple of names.
\<close>

datatype target = Str string | Obj string | Dict "(string \<times> real) list" | Seq "string list"

definition first_cation :: "env \<Rightarrow> string \<Rightarrow> string \<Rightarrow> error + string" where
  "first_cation E c total_suffix =
     ebind (get_cations E c total_suffix) (\<lambda>cs. case cs of [] \<Rightarrow> Inl IndexError | x # _ \<Rightarrow> Inr x)"

definition common_cation :: "env \<Rightarrow> string list \<Rightarrow> string \<Rightarrow> error + string" where
  "common_cation E names total_suffix =
     ebind (emap (\<lambda>t. first_cation E t total_suffix) names) (\<lambda>cations.
       if \<not> list_all (\<lambda>c. c = hd cations) cations then Inl AssertionError
       else case cations of [] \<Rightarrow> Inl IndexError | c # _ \<Rightarrow> Inr c)"

definition cation_of :: "env \<Rightarrow> target \<Rightarrow> string \<Rightarrow> error + string" where
  "cation_of E component total_suffix =
     (case component of
        Str c \<Rightarrow> first_cation E c total_suffix
      | Obj c \<Rightarrow> first_cation E c total_suffix
      | Dict d \<Rightarrow> common_cation E (map fst d) total_suffix
      | Seq l \<Rightarrow> common_cation E l total_suffix)"

text \<open>
  The candidate species: the cation, its simple oxides and the total-suffixed variants
  of both, as far as they are columns. Python builds a \<^verbatim>\<open>set\<close> here, whose order is
  not fixed; the model takes the names in list order, duplicates removed.
\<close>

definition candidate_species :: "frame \<Rightarrow> string \<Rightarrow> string list \<Rightarrow> string \<Rightarrow> string list" where
  "candidate_species df cationname oxs total_suffix =
     (let poss = cationname # oxs;
          poss_specs = poss @ map (\<lambda>i. i @ total_suffix) poss
      in filter (\<lambda>i. i \<in> set (columns df)) (remdups poss_specs))"

text \<open>The loop that converts each candidate column to the metallic cation.\<close>

fun convert_species :: "env \<Rightarrow> string \<Rightarrow> string \<Rightarrow> bool \<Rightarrow> frame \<Rightarrow> string list \<Rightarrow> error + frame" where
  "convert_species E cationname total_suffix molecular subdf [] = Inr subdf"
| "convert_species E cationname total_suffix molecular subdf (s # ss) =
     ebind (oxide_conversion E (remove_suffix E s total_suffix) cationname molecular) (\<lambda>cv.
     ebind (apply_conversion (nrows subdf) cv (column subdf s)) (\<lambda>converted.
       convert_species E cationname total_suffix molecular (setcol subdf s converted) ss))"

definition invalid :: "float64 \<Rightarrow> bool" where
  "invalid x = (\<not> isfinite x \<or> lt0 x)"

definition cation_sum :: "env \<Rightarrow> frame \<Rightarrow> string \<Rightarrow> string list \<Rightarrow> string \<Rightarrow> bool \<Rightarrow> bool \<Rightarrow> error + series" where
  "cation_sum E df cationname species total_suffix logdata molecular =
     (if species = [] then Inr (\<lambda>i. NaN)
      else
        ebind (loc_columns df species) (\<lambda>subdf.
        ebind (convert_species E cationname total_suffix molecular
                 (if logdata then applymap fexp subdf else subdf) species) (\<lambda>converted.
          Inr (series_mask_set le0 NaN (sum_axis1 (frame_mask_set invalid (Fin 0) converted))))))"

definition elemental_sum ::
  "env \<Rightarrow> frame \<Rightarrow> target \<Rightarrow> string option \<Rightarrow> string \<Rightarrow> bool \<Rightarrow> bool \<Rightarrow> error + named_series" where
  "elemental_sum E df component to total_suffix logdata molecular =
     ebind (cation_of E component total_suffix) (\<lambda>cationname.
     ebind (simple_oxides E cationname) (\<lambda>oxs.
     ebind (cation_sum E df cationname (candidate_species df cationname oxs total_suffix)
              total_suffix logdata molecular) (\<lambda>subsum.
       case to of
         None \<Rightarrow> Inr \<lparr>sname = cationname, svals = subsum\<rparr>
       | Some t \<Rightarrow>
           ebind (oxide_conversion E cationname t molecular) (\<lambda>cv.
           ebind (apply_conversion (nrows df) cv subsum) (\<lambda>s.
             Inr \<lparr>sname = t, svals = s\<rparr>)))))"

section \<open>Species redistribution\<close>

text \<open>
  The branch on the shape of \<^verbatim>\<open>to\<close>: the target names, one coefficient per target
  and the redundant columns to drop.
\<close>

definition scalar_conversion :: "env \<Rightarrow> string \<Rightarrow> string \<Rightarrow> bool \<Rightarrow> float64 \<Rightarrow> error + float64" where
  "scalar_conversion E oxin oxout molecular x =
     ebind (oxide_conversion E oxin oxout molecular) (\<lambda>cv. convert_series cv x)"

definition speciation ::
  "env \<Rightarrow> string \<Rightarrow> string list \<Rightarrow> target \<Rightarrow> string \<Rightarrow> bool
   \<Rightarrow> error + (string list \<times> float64 list \<times> string list)" where
  "speciation E cation species to total_suffix molecular =
     (case to of
        Str t \<Rightarrow>
          ebind (scalar_conversion E cation (remove_suffix E t total_suffix) molecular (Fin 1)) (\<lambda>c.
            Inr ([t], [c], filter (\<lambda>i. i \<noteq> t) species))
      | Obj t \<Rightarrow>
          ebind (scalar_conversion E cation t molecular (Fin 1)) (\<lambda>c.
            Inr ([t], [c], filter (\<lambda>i. i \<noteq> t) species))
      | Dict d \<Rightarrow>
          (let targetnames = map fst d; props = close (map snd d) in
           ebind (emap (\<lambda>(t, p). scalar_conversion E cation t molecular p) (zip targetnames props))
             (\<lambda>coeff. Inr (targetnames, coeff, filter (\<lambda>i. i \<notin> set targetnames) species)))
      | Seq _ \<Rightarrow> Inl (NotImplementedError ''Not yet implemented for tuples, lists, arrays etc.''))"

text \<open>
  The body of \<^verbatim>\<open>aggregate_element\<close> up to the renormalisation: the names dropped
  and the table that \<^verbatim>\<open>df\<close> is bound to in the end. \<open>work\<close> is the copy \<^verbatim>\<open>_df\<close>.
\<close>

definition aggregate_element_core ::
  "env \<Rightarrow> frame \<Rightarrow> target \<Rightarrow> string \<Rightarrow> bool \<Rightarrow> bool \<Rightarrow> error + (string list \<times> frame)" where
  "aggregate_element_core E df to total_suffix logdata molecular =
     ebind (elemental_sum E df to None total_suffix logdata molecular) (\<lambda>subsum.
     ebind (simple_oxides E (sname subsum)) (\<lambda>oxs.
       let species = filter (\<lambda>i. i \<in> set (columns df)) (oxs @ map (\<lambda>i. i @ total_suffix) oxs) in
     ebind (speciation E (sname subsum) species to total_suffix molecular) (\<lambda>(targetnames, coeff, ds).
       let kept = (if ds \<noteq> [] then drop_columns df ds else df);
           work0 = fold (\<lambda>t f. if t \<in> set (columns f) then f else setcol f t (\<lambda>_. NaN)) targetnames df;
           work1 = assign_columns work0
                     (map (\<lambda>(t, c). (t, \<lambda>i. fmul (svals subsum i) c)) (zip targetnames coeff));
           work2 = (if logdata
                    then assign_columns work1 (map (\<lambda>t. (t, \<lambda>i. flog (column work1 t i))) targetnames)
                    else work1)
       in Inr (ds, assign_columns kept (map (\<lambda>t. (t, column work2 t)) targetnames)))))"

definition aggregate_element ::
  "env \<Rightarrow> frame \<Rightarrow> target \<Rightarrow> string \<Rightarrow> bool \<Rightarrow> bool \<Rightarrow> bool \<Rightarrow> error + frame" where
  "aggregate_element E df to total_suffix logdata renorm molecular =
     ebind (aggregate_element_core E df to total_suffix logdata molecular) (\<lambda>(ds, out).
       if renorm then Inr (renormalise E out) else Inr out)"

definition recalculate_Fe ::
  "env \<Rightarrow> frame \<Rightarrow> target \<Rightarrow> bool \<Rightarrow> string \<Rightarrow> bool \<Rightarrow> bool \<Rightarrow> error + frame" where
  "recalculate_Fe E df to renorm total_suffix logdata molecular =
     aggregate_element E df to total_suffix logdata renorm molecular"

section \<open>Strings\<close>

text \<open>The string operations of Python the code uses, on ASCII.\<close>

definition endswith :: "string \<Rightarrow> string \<Rightarrow> bool" where
  "endswith suf z = (length suf \<le> length z \<and> drop (length z - length suf) z = suf)"

fun split_on :: "char \<Rightarrow> string \<Rightarrow> string list" where
  "split_on c [] = [[]]"
| "split_on c (x # xs) =
     (if x = c then [] # split_on c xs
      else case split_on c xs of [] \<Rightarrow> [[x]] | w # ws \<Rightarrow> (x # w) # ws)"

definition lower_char :: "char \<Rightarrow> char" where
  "lower_char c =
     (let n = (of_char c :: nat) in if 65 \<le> n \<and> n \<le> 90 then char_of (n + 32) else c)"

definition lower :: "string \<Rightarrow> string" where
  "lower s = map lower_char s"

text \<open>\<^verbatim>\<open>replace("_n", "")\<close>.\<close>

fun remove_underscore_n :: "string \<Rightarrow> string" where
  "remove_underscore_n (a # b # cs) =
     (if a = CHR ''_'' \<and> b = CHR ''n'' then remove_underscore_n cs
      else a # remove_underscore_n (b # cs))"
| "remove_underscore_n cs = cs"

text \<open>\<^verbatim>\<open>pat in s\<close> for strings.\<close>

fun contains :: "string \<Rightarrow> string \<Rightarrow> bool" where
  "contains pat [] = (pat = [])"
| "contains pat (c # cs) = (take (length pat) (c # cs) = pat \<or> contains pat cs)"

fun string_of_nat :: "nat \<Rightarrow> string" where
  "string_of_nat n =
     (if n < 10 then [char_of (48 + n)]
      else string_of_nat (n div 10) @ [char_of (48 + n mod 10)])"

declare string_of_nat.simps [simp del]

section \<open>Ratios\<close>

text \<open>
  \<^verbatim>\<open>norm_to\<close>: nothing, the name of a reference composition, a reference composition,
  or a collection of values.
\<close>

datatype norm_arg = NormNone | NormName string | NormRef refcomp | NormSeq "real list"

definition ref_value :: "refcomp \<Rightarrow> string \<Rightarrow> error + real" where
  "ref_value r el = (case r el of None \<Rightarrow> Inl (KeyError el) | Some v \<Rightarrow> Inr v)"

definition ref_pair :: "refcomp \<Rightarrow> string \<Rightarrow> string \<Rightarrow> error + (real \<times> real)" where
  "ref_pair r num den = ebind (ref_value r num) (\<lambda>a. ebind (ref_value r den) (\<lambda>b. Inr (a, b)))"

definition reference_pair :: "env \<Rightarrow> norm_arg \<Rightarrow> string \<Rightarrow> string \<Rightarrow> error + (real \<times> real)" where
  "reference_pair E norm_to num den =
     (case norm_to of
        NormName n \<Rightarrow> ebind (get_reference_composition E n) (\<lambda>norm. ref_pair norm num den)
      | NormRef r \<Rightarrow> ref_pair r num den
      | NormSeq vs \<Rightarrow> (case vs of [a, b] \<Rightarrow> Inr (a, b) | _ \<Rightarrow> Inl (ValueError ''unpack''))
      | NormNone \<Rightarrow>
          ebind (get_reference_composition E ''Chondrite_PON'') (\<lambda>norm. ref_pair norm num den))"

definition ratio_name :: "string \<Rightarrow> string option \<Rightarrow> string" where
  "ratio_name ratio alias = (case alias of None \<Rightarrow> ratio | Some a \<Rightarrow> if a = [] then ratio else a)"

text \<open>
  The name and the values of the column \<^verbatim>\<open>add_ratio\<close> writes. The reference values
  \<open>norms\<close> are looked up as the source does (a failing lookup raises) and, as in
  the source, nothing reads them afterwards.
\<close>

definition ratio_column ::
  "env \<Rightarrow> frame \<Rightarrow> string \<Rightarrow> string option \<Rightarrow> norm_arg \<Rightarrow> bool \<Rightarrow> error + (string \<times> series)" where
  "ratio_column E df ratio alias norm_to molecular =
     (case split_on CHR ''/'' ratio of
        [num, den0] \<Rightarrow>
          (let to_norm = endswith ''_n'' (lower den0);
               den = (if to_norm then titlecase E (remove_underscore_n (lower den0)) else den0)
           in
           ebind (if to_norm \<or> (case norm_to of NormNone \<Rightarrow> False | _ \<Rightarrow> True)
                  then ebind (reference_pair E norm_to num den) (\<lambda>p. Inr (Some p))
                  else Inr None) (\<lambda>norms.
           ebind (elemental_sum E df (Str num) (Some num) ''T'' False molecular) (\<lambda>numsum.
           ebind (elemental_sum E df (Str den) (Some den) ''T'' False molecular) (\<lambda>densum.
             Inr (ratio_name ratio alias,
                  series_mask_set (\<lambda>x. \<not> isfinite x) NaN
                    (\<lambda>i. fdiv (svals numsum i) (svals densum i)))))))
      | _ \<Rightarrow> Inl (ValueError ''unpack''))"

text \<open>The table \<^verbatim>\<open>add_ratio\<close> returns.\<close>

definition add_ratio ::
  "env \<Rightarrow> frame \<Rightarrow> string \<Rightarrow> string option \<Rightarrow> norm_arg \<Rightarrow> bool \<Rightarrow> error + frame" where
  "add_ratio E df ratio alias norm_to molecular =
     ebind (ratio_column E df ratio alias norm_to molecular) (\<lambda>(name, r). Inr (setcol df name r))"

section \<open>Magnesium number\<close>

definition to_frame :: "nat \<Rightarrow> named_series \<Rightarrow> frame" where
  "to_frame n s = \<lparr>nrows = n, cols = [(sname s, svals s)]\<rparr>"

definition first_column :: "frame \<Rightarrow> series" where
  "first_column df = (case cols df of [] \<Rightarrow> (\<lambda>_. NaN) | (c, s) # _ \<Rightarrow> s)"

text \<open>
  With \<^verbatim>\<open>use_total_approx\<close> the source calls \<^verbatim>\<open>aggregate_element(df, "Fe", to=speciation)\<close>,
  which passes \<^verbatim>\<open>to\<close> twice: Python raises a TypeError before the call.
\<close>

definition MgNo_column :: "env \<Rightarrow> frame \<Rightarrow> bool \<Rightarrow> bool \<Rightarrow> real \<Rightarrow> error + series" where
  "MgNo_column E df molecular use_total_approx approx_Fe203_frac =
     ebind (elemental_sum E df (Str ''Mg'') None ''T'' False molecular) (\<lambda>mg.
     ebind (if use_total_approx then Inl (TypeError ''multiple values for argument to'')
            else ebind (loc_columns df (filter (\<lambda>i. \<not> contains ''Fe2O3'' i) (columns df)))
                   (\<lambda>sub. elemental_sum E sub (Str ''Fe'') None ''T'' False molecular)) (\<lambda>fe.
     ebind (if \<not> molecular
            then ebind (to_molecular E (to_frame (nrows df) mg) False) (\<lambda>m.
                 ebind (to_molecular E (to_frame (nrows df) fe) False) (\<lambda>f.
                   Inr (first_column m, first_column f)))
            else Inr (svals mg, svals fe)) (\<lambda>(mgv, fev).
       Inr (\<lambda>i. fdiv (mgv i) (fadd (mgv i) (fev i))))))"

definition add_MgNo :: "env \<Rightarrow> frame \<Rightarrow> bool \<Rightarrow> bool \<Rightarrow> real \<Rightarrow> string \<Rightarrow> error + frame" where
  "add_MgNo E df molecular use_total_approx approx_Fe203_frac name =
     ebind (MgNo_column E df molecular use_total_approx approx_Fe203_frac) (\<lambda>mgnos.
       Inr (setcol df name (if nrows df \<noteq> 0 then mgnos else (\<lambda>_. NaN))))"

section \<open>Rare-earth pattern fitting\<close>

text \<open>
  \<^verbatim>\<open>lambdadf\<close> is a table of Python objects until the last line makes it numeric:
  a cell is a number or, in the appended column, a function.
\<close>

datatype pyobj = Number float64 | Callable "real \<Rightarrow> real"

record objframe =
  onrows :: nat
  ocols :: "(string \<times> (nat \<Rightarrow> pyobj)) list"

text \<open>\<^verbatim>\<open>pd.to_numeric(errors="coerce")\<close>: what is no number becomes missing.\<close>

fun to_numeric :: "pyobj \<Rightarrow> float64" where
  "to_numeric (Number x) = x"
| "to_numeric (Callable _) = NaN"

fun is_zero :: "pyobj \<Rightarrow> bool" where
  "is_zero (Number x) = eq0 x"
| "is_zero (Callable _) = False"

definition all_null_column :: "frame \<Rightarrow> string \<Rightarrow> bool" where
  "all_null_column df c = list_all (\<lambda>i. isnull (column df c i)) [0..<nrows df]"

definition selected_ree :: "env \<Rightarrow> frame \<Rightarrow> string list \<Rightarrow> string list" where
  "selected_ree E df exclude =
     filter (\<lambda>i. i \<in> set (columns df) \<and> i \<notin> set exclude \<and> \<not> all_null_column df i) (REE E)"

definition null_in_row :: "frame \<Rightarrow> string list \<Rightarrow> nat \<Rightarrow> bool" where
  "null_in_row df ree i = list_ex (\<lambda>c. isnull (column df c i)) ree"

text \<open>\<^verbatim>\<open>chr(955) + str(d)\<close>: the Greek letter in UTF-8, then the digits.\<close>

definition labels :: "nat \<Rightarrow> string list" where
  "labels degree = map (\<lambda>d. [CHR 0xCE, CHR 0xBB] @ string_of_nat d) [0..<degree]"

definition norm_abundances ::
  "env \<Rightarrow> norm_arg \<Rightarrow> string \<Rightarrow> string list \<Rightarrow> error + real list option" where
  "norm_abundances E norm_to scale ree =
     (case norm_to of
        NormNone \<Rightarrow> Inr None
      | NormName n \<Rightarrow>
          ebind (get_reference_composition E n) (\<lambda>norm.
          ebind (emap (ref_value (set_units E norm scale)) ree) (\<lambda>vs. Inr (Some vs)))
      | NormRef r \<Rightarrow> ebind (emap (ref_value (set_units E r scale)) ree) (\<lambda>vs. Inr (Some vs))
      | NormSeq vs \<Rightarrow> if length vs = length ree then Inr (Some vs) else Inl AssertionError)"

text \<open>One row of \<^verbatim>\<open>norm_df\<close>: divided by the reference, masked where a value is not
  positive, and log-transformed.\<close>

definition lognorm_row :: "frame \<Rightarrow> string list \<Rightarrow> real list option \<Rightarrow> nat \<Rightarrow> float64 list" where
  "lognorm_row df ree abund i =
     (let vals = (case abund of
                    None \<Rightarrow> map (\<lambda>c. column df c i) ree
                  | Some ws \<Rightarrow> map (\<lambda>(c, w). fdiv (column df c i) (Fin w)) (zip ree ws));
          masked = (if list_ex le0 vals then map (\<lambda>_. NaN) vals else vals)
      in map flog masked)"

text \<open>
  \<^verbatim>\<open>np.apply_along_axis\<close> over the rows without a missing value: it raises when
  there is no such row, and the coefficients of every row must fill the \<open>degree\<close>
  label columns. Which error is reported when several rows fail is not modelled.
\<close>

definition fit_rows ::
  "env \<Rightarrow> frame \<Rightarrow> string list \<Rightarrow> real list option \<Rightarrow> real list \<Rightarrow> real list list \<Rightarrow> nat
   \<Rightarrow> error + (nat \<times> float64 list) list" where
  "fit_rows E df ree abund radii params degree =
     (let valid = filter (\<lambda>i. \<not> null_in_row df ree i) [0..<nrows df] in
      if valid = [] then Inl (ValueError ''Cannot apply_along_axis when any iteration dimensions are 0'')
      else ebind (emap (\<lambda>i. ebind (lambdas E (lognorm_row df ree abund i) radii params degree)
                               (\<lambda>cs. Inr (i, cs))) valid) (\<lambda>fits.
             if list_all (\<lambda>(i, cs). length cs = degree) fits then Inr fits
             else Inl (ValueError ''shape mismatch'')))"

definition coefficient_frame :: "nat \<Rightarrow> nat \<Rightarrow> (nat \<times> float64 list) list \<Rightarrow> objframe" where
  "coefficient_frame n degree fits =
     \<lparr>onrows = n,
      ocols = map (\<lambda>(d, l). (l, \<lambda>i. case map_of fits i of
                                       None \<Rightarrow> Number NaN
                                     | Some cs \<Rightarrow> Number (cs ! d)))
                (zip [0..<degree] (labels degree))\<rparr>"

definition orow :: "objframe \<Rightarrow> nat \<Rightarrow> pyobj list" where
  "orow odf i = map (\<lambda>(l, s). s i) (ocols odf)"

text \<open>\<^verbatim>\<open>lambdadf.loc[(lambdadf == 0.0).all(axis=1), :] = np.nan\<close>.\<close>

definition null_zero_rows :: "objframe \<Rightarrow> objframe" where
  "null_zero_rows odf =
     odf\<lparr>ocols := map (\<lambda>(l, s). (l, \<lambda>i. if list_all is_zero (orow odf i) then Number NaN else s i))
                    (ocols odf)\<rparr>"

definition append_function ::
  "env \<Rightarrow> objframe \<Rightarrow> real list \<Rightarrow> real list list \<Rightarrow> nat \<Rightarrow> objframe" where
  "append_function E odf radii params degree =
     odf\<lparr>ocols := AList.update ''lambda_poly_func''
        (\<lambda>i. Callable (lambda_poly_func E (map to_numeric (orow odf i)) radii params degree))
        (ocols odf)\<rparr>"

definition coerce_numeric :: "objframe \<Rightarrow> frame" where
  "coerce_numeric odf =
     \<lparr>nrows = onrows odf, cols = map (\<lambda>(l, s). (l, \<lambda>i. to_numeric (s i))) (ocols odf)\<rparr>"

definition lambda_lnREE ::
  "env \<Rightarrow> frame \<Rightarrow> norm_arg \<Rightarrow> string list \<Rightarrow> real list list option \<Rightarrow> nat
   \<Rightarrow> string list option \<Rightarrow> string \<Rightarrow> error + frame" where
  "lambda_lnREE E df norm_to exclude params degree appnd scale =
     (let ree = selected_ree E df exclude in
      ebind (get_ionic_radii E ree) (\<lambda>radii.
      ebind (case params of
               None \<Rightarrow> ebind (OP_constants E radii degree) (\<lambda>ps. Inr (ps, degree))
             | Some ps \<Rightarrow> Inr (ps, length ps)) (\<lambda>(ps, deg).
      ebind (norm_abundances E norm_to scale ree) (\<lambda>abund.
      ebind (fit_rows E df ree abund radii ps deg) (\<lambda>fits.
        let lambdadf = null_zero_rows (coefficient_frame (nrows df) deg fits);
            appended = (case appnd of
                          None \<Rightarrow> lambdadf
                        | Some ap \<Rightarrow> if ''function'' \<in> set ap
                                     then append_function E lambdadf radii ps deg
                                     else lambdadf);
            numeric = coerce_numeric appended
        in if nrows numeric = nrows df then Inr numeric else Inl AssertionError)))))"

section \<open>Tables as objects\<close>

text \<open>
  Python passes a table by reference, and \<^verbatim>\<open>df[name] = ...\<close> changes the object the
  caller holds. The heap is the list of the tables alive, an address is a position in
  it. The operations below take the heap and the address of their argument, and return
  the heap after the call and the address of the table they return; their values are
  computed by the functions above. The copies a function makes and forgets before it
  returns are not put on the heap.
\<close>

type_synonym heap = "frame list"

definition alloc :: "heap \<Rightarrow> frame \<Rightarrow> heap \<times> nat" where
  "alloc h f = (h @ [f], length h)"

text \<open>\<^verbatim>\<open>df[name] = ratio; return df\<close>.\<close>

definition add_ratio_ref ::
  "env \<Rightarrow> heap \<Rightarrow> nat \<Rightarrow> string \<Rightarrow> string option \<Rightarrow> norm_arg \<Rightarrow> bool \<Rightarrow> error + (heap \<times> nat)" where
  "add_ratio_ref E h a ratio alias norm_to molecular =
     ebind (ratio_column E (h ! a) ratio alias norm_to molecular) (\<lambda>(name, r).
       Inr (h[a := setcol (h ! a) name r], a))"

definition add_MgNo_ref ::
  "env \<Rightarrow> heap \<Rightarrow> nat \<Rightarrow> bool \<Rightarrow> bool \<Rightarrow> real \<Rightarrow> string \<Rightarrow> error + (heap \<times> nat)" where
  "add_MgNo_ref E h a molecular use_total_approx approx_Fe203_frac name =
     ebind (MgNo_column E (h ! a) molecular use_total_approx approx_Fe203_frac) (\<lambda>mgnos.
       Inr (h[a := setcol (h ! a) name (if nrows (h ! a) \<noteq> 0 then mgnos else (\<lambda>_. NaN))], a))"

text \<open>
  \<^verbatim>\<open>aggregate_element\<close>: \<^verbatim>\<open>df.drop\<close> makes a new table only when there is something
  to drop; otherwise \<^verbatim>\<open>df[targetnames] = ...\<close> writes into the caller's table.
  \<^verbatim>\<open>renormalise\<close> returns a new table.
\<close>

definition aggregate_element_ref ::
  "env \<Rightarrow> heap \<Rightarrow> nat \<Rightarrow> target \<Rightarrow> string \<Rightarrow> bool \<Rightarrow> bool \<Rightarrow> bool \<Rightarrow> error + (heap \<times> nat)" where
  "aggregate_element_ref E h a to total_suffix logdata renorm molecular =
     ebind (aggregate_element_core E (h ! a) to total_suffix logdata molecular) (\<lambda>(ds, out).
       let (h1, b) = (if ds = [] then (h[a := out], a) else alloc h out)
       in if renorm then Inr (alloc h1 (renormalise E out)) else Inr (h1, b))"

definition recalculate_Fe_ref ::
  "env \<Rightarrow> heap \<Rightarrow> nat \<Rightarrow> target \<Rightarrow> bool \<Rightarrow> string \<Rightarrow> bool \<Rightarrow> bool \<Rightarrow> error + (heap \<times> nat)" where
  "recalculate_Fe_ref E h a to renorm total_suffix logdata molecular =
     aggregate_element_ref E h a to total_suffix logdata renorm molecular"

definition lambda_lnREE_ref ::
  "env \<Rightarrow> heap \<Rightarrow> nat \<Rightarrow> norm_arg \<Rightarrow> string list \<Rightarrow> real list list option \<Rightarrow> nat
   \<Rightarrow> string list option \<Rightarrow> string \<Rightarrow> error + (heap \<times> nat)" where
  "lambda_lnREE_ref E h a norm_to exclude params degree appnd scale =
     ebind (lambda_lnREE E (h ! a) norm_to exclude params degree appnd scale) (\<lambda>out.
       Inr (alloc h out))"

section \<open>Schema reconciliation\<close>

text \<open>An entry of \<^verbatim>\<open>to\<close>: a name, or a mapping from names to proportions.\<close>

datatype request = Name string | Coupled "(string \<times> real) list"

fun coupled_sets :: "request list \<Rightarrow> (string \<times> real) list list" where
  "coupled_sets [] = []"
| "coupled_sets (Name _ # rs) = coupled_sets rs"
| "coupled_sets (Coupled d # rs) = d # coupled_sets rs"

fun names_of :: "request list \<Rightarrow> string list" where
  "names_of [] = []"
| "names_of (Name s # rs) = s # names_of rs"
| "names_of (Coupled _ # rs) = names_of rs"

text \<open>
  \<^verbatim>\<open>[i for i in to if "/" in i and i not in df.columns]\<close>. For a mapping,
  \<^verbatim>\<open>"/" in i\<close> asks for the key; if it is there, the membership test in the column
  index cannot hash the mapping.
\<close>

fun new_ratios :: "string list \<Rightarrow> request list \<Rightarrow> error + string list" where
  "new_ratios cs [] = Inr []"
| "new_ratios cs (Name s # rs) =
     ebind (new_ratios cs rs) (\<lambda>r. Inr (if CHR ''/'' \<in> set s \<and> s \<notin> set cs then s # r else r))"
| "new_ratios cs (Coupled d # rs) =
     (if ''/'' \<in> set (map fst d) then Inl (TypeError ''unhashable type: dict'')
      else new_ratios cs rs)"

fun aggregate_all ::
  "env \<Rightarrow> heap \<Rightarrow> nat \<Rightarrow> string list \<Rightarrow> bool \<Rightarrow> bool \<Rightarrow> error + (heap \<times> nat)" where
  "aggregate_all E h d [] logdata molecular = Inr (h, d)"
| "aggregate_all E h d (item # items) logdata molecular =
     ebind (aggregate_element_ref E h d (Str item) ''T'' logdata False molecular) (\<lambda>(h', d').
       aggregate_all E h' d' items logdata molecular)"

fun add_ratios :: "env \<Rightarrow> heap \<Rightarrow> nat \<Rightarrow> string list \<Rightarrow> bool \<Rightarrow> error + (heap \<times> nat)" where
  "add_ratios E h d [] molecular = Inr (h, d)"
| "add_ratios E h d (r # rs) molecular =
     ebind (add_ratio_ref E h d r None NormNone molecular) (\<lambda>(h', d').
       add_ratios E h' d' rs molecular)"

text \<open>
  The lists \<^verbatim>\<open>convert_chemistry\<close> derives from \<^verbatim>\<open>to\<close> and the columns before it
  changes anything. The two set differences are taken in list order.
\<close>

record plan =
  coupled_components :: "string list"
  noncomp :: "string list"
  ratios :: "string list"
  get_comp :: "string list"
  to_aggregate :: "string list"
  get_fe :: "target list"

text \<open>\<^verbatim>\<open>[s for s in coupled_sets if all(["Fe" in k for k in s])]\<close>.\<close>

definition coupled_fe :: "request list \<Rightarrow> (string \<times> real) list list" where
  "coupled_fe to = filter (\<lambda>s. list_all (contains ''Fe'') (map fst s)) (coupled_sets to)"

definition iron_targets :: "request list \<Rightarrow> string list \<Rightarrow> target list" where
  "iron_targets to get_notpresent =
     (if coupled_fe to \<noteq> [] then map Dict (coupled_fe to)
      else map Str (filter (contains ''Fe'') get_notpresent))"

definition make_plan :: "env \<Rightarrow> string list \<Rightarrow> request list \<Rightarrow> error + plan" where
  "make_plan E cs to =
     (let compositional = common_oxides E @ common_elements E;
          cc = concat (map (map fst) (coupled_sets to));
          present_comp = filter (\<lambda>i. i \<in> set compositional) cs @ cc;
          nc = filter (\<lambda>i. i \<notin> set present_comp) cs
      in ebind (new_ratios cs to) (\<lambda>nr.
           let gc = filter (\<lambda>i. i \<notin> set nc \<and> i \<notin> set nr) (names_of to);
               agg_present = filter (\<lambda>i. i \<in> set present_comp) gc;
               get_notpresent = filter (\<lambda>i. i \<notin> set present_comp) gc;
               current_fe = filter (contains ''Fe'') present_comp;
               fe = filter (contains ''Fe'') get_notpresent
           in Inr \<lparr>coupled_components = cc, noncomp = nc, ratios = nr, get_comp = gc,
                   to_aggregate = remdups (filter (\<lambda>i. i \<notin> set current_fe) agg_present)
                                @ remdups (filter (\<lambda>i. i \<notin> set fe) get_notpresent),
                   get_fe = iron_targets to get_notpresent\<rparr>))"

definition renormalise_present :: "env \<Rightarrow> frame \<Rightarrow> error + frame" where
  "renormalise_present E df =
     (let present_comp = filter (\<lambda>i. i \<in> set (common_oxides E @ common_elements E)) (columns df)
      in ebind (loc_columns df present_comp) (\<lambda>sub.
           Inr (assign_columns df (map (\<lambda>c. (c, column (renormalise E sub) c)) present_comp))))"

text \<open>The iron redox section: more than one iron target is refused, one is handed to
  \<^verbatim>\<open>recalculate_Fe\<close>.\<close>

definition iron_redox ::
  "env \<Rightarrow> heap \<Rightarrow> nat \<Rightarrow> plan \<Rightarrow> bool \<Rightarrow> bool \<Rightarrow> error + (heap \<times> nat)" where
  "iron_redox E h d p logdata molecular =
     (if 1 < length (get_fe p)
      then Inl (NotImplementedError ''Need to specify speciation for >1 Fe components.'')
      else case get_fe p of
             [] \<Rightarrow> Inr (h, d)
           | fe # _ \<Rightarrow> recalculate_Fe_ref E h d fe False ''T'' logdata molecular)"

text \<open>The last checks, the renormalisation of the compositional columns in place, and
  the selection of the output columns as a new table.\<close>

definition last_minute_checks ::
  "env \<Rightarrow> heap \<Rightarrow> nat \<Rightarrow> plan \<Rightarrow> bool \<Rightarrow> error + (heap \<times> nat)" where
  "last_minute_checks E h d p renorm =
     (let remaining = filter (\<lambda>i. i \<notin> set (columns (h ! d))) (get_comp p);
          output_columns = noncomp p @ get_comp p @ coupled_components p @ ratios p
      in if remaining \<noteq> [] then Inl (ColumnsNotAttained remaining)
         else if renorm
         then ebind (renormalise_present E (h ! d)) (\<lambda>df'.
              ebind (loc_columns df' output_columns) (\<lambda>out.
                Inr (alloc (h[d := df']) out)))
         else ebind (loc_columns (h ! d) output_columns) (\<lambda>out. Inr (alloc h out)))"

definition convert_chemistry_ref ::
  "env \<Rightarrow> heap \<Rightarrow> nat \<Rightarrow> request list \<Rightarrow> bool \<Rightarrow> bool \<Rightarrow> bool \<Rightarrow> error + (heap \<times> nat)" where
  "convert_chemistry_ref E h a to logdata renorm molecular =
     (let (h0, d0) = alloc h (h ! a) in
      ebind (make_plan E (columns (h ! a)) to) (\<lambda>p.
      ebind (aggregate_all E h0 d0 (to_aggregate p) logdata molecular) (\<lambda>(h1, d1).
      ebind (iron_redox E h1 d1 p logdata molecular) (\<lambda>(h2, d2).
      ebind (add_ratios E h2 d2 (ratios p) molecular) (\<lambda>(h3, d3).
        last_minute_checks E h3 d3 p renorm)))))"

text \<open>The table \<^verbatim>\<open>convert_chemistry\<close> returns for a table given by value.\<close>

definition convert_chemistry ::
  "env \<Rightarrow> frame \<Rightarrow> request list \<Rightarrow> bool \<Rightarrow> bool \<Rightarrow> bool \<Rightarrow> error + frame" where
  "convert_chemistry E df to logdata renorm molecular =
     ebind (convert_chemistry_ref E [df] 0 to logdata renorm molecular) (\<lambda>(h, r). Inr (h ! r))"

section \<open>A concrete environment\<close>

text \<open>
  The examples below run the model in one small environment: five formulas with
  rounded molecular weights, the oxides of magnesium and iron, and simple stand-ins
  for the text helpers and the fitting routines.
\<close>

definition formula_table :: "string \<Rightarrow> error + formula" where
  "formula_table s =
     (if s = ''Mg'' then Inr \<lparr>atoms = [(''Mg'', 1)], mass = 24\<rparr>
      else if s = ''MgO'' then Inr \<lparr>atoms = [(''Mg'', 1), (''O'', 1)], mass = 40\<rparr>
      else if s = ''Fe'' then Inr \<lparr>atoms = [(''Fe'', 1)], mass = 56\<rparr>
      else if s = ''FeO'' then Inr \<lparr>atoms = [(''Fe'', 1), (''O'', 1)], mass = 72\<rparr>
      else if s = ''Fe2O3'' then Inr \<lparr>atoms = [(''Fe'', 2), (''O'', 3)], mass = 160\<rparr>
      else Inl (ExternalError s))"

definition strip_suffix :: "string \<Rightarrow> string \<Rightarrow> string" where
  "strip_suffix z suf = (if endswith suf z then take (length z - length suf) z else z)"

definition cations_table :: "string \<Rightarrow> string \<Rightarrow> error + string list" where
  "cations_table c suf =
     ebind (formula_table (strip_suffix c suf)) (\<lambda>f. Inr (map fst (non_oxygen f)))"

definition oxides_table :: "string \<Rightarrow> error + string list" where
  "oxides_table c =
     (if c = ''Mg'' then Inr [''MgO'']
      else if c = ''Fe'' then Inr [''FeO'', ''Fe2O3'']
      else Inl (ExternalError c))"

text \<open>
  Modelled from the spec: \<^verbatim>\<open>renormalise\<close> of \<^verbatim>\<open>comp.codata\<close> is not among the
  sources; the spec describes renormalisation as the closure that rescales the values of
  each row of the table it is given so that they sum to a constant. Here the constant
  is 100, and a row that sums to zero is left as it is.
\<close>

definition closure_100 :: "frame \<Rightarrow> frame" where
  "closure_100 df =
     df\<lparr>cols := map (\<lambda>(c, s). (c, \<lambda>i.
        fmul (fdiv (s i) (if eq0 (sum_axis1 df i) then Fin 100 else sum_axis1 df i)) (Fin 100)))
        (cols df)\<rparr>"

definition capitalise :: "string \<Rightarrow> string" where
  "capitalise s =
     (case s of
        [] \<Rightarrow> []
      | c # cs \<Rightarrow> (let n = (of_char c :: nat) in if 97 \<le> n \<and> n \<le> 122 then char_of (n - 32) else c) # cs)"

definition chondrite :: refcomp where
  "chondrite el = (if el = ''Mg'' then Some 2 else if el = ''Fe'' then Some 4 else None)"

definition env0 :: env where
  "env0 = \<lparr>
     formula_of = formula_table,
     get_cations = cations_table,
     simple_oxides = oxides_table,
     remove_suffix = strip_suffix,
     titlecase = capitalise,
     renormalise = closure_100,
     common_oxides = [''MgO'', ''FeO'', ''Fe2O3''],
     common_elements = [''Mg'', ''Fe''],
     get_reference_composition = (\<lambda>n. if n = ''Chondrite_PON'' then Inr chondrite else Inl (KeyError n)),
     set_units = (\<lambda>r u. r),
     REE = [''La'', ''Ce''],
     get_ionic_radii = (\<lambda>els. Inr (map (\<lambda>_. 1) els)),
     OP_constants = (\<lambda>radii degree. Inr (replicate degree [])),
     lambdas = (\<lambda>ys xs params degree. Inr (map (\<lambda>d. Fin (real d + 1)) [0..<degree])),
     lambda_poly_func = (\<lambda>ls pxs params degree. (\<lambda>x. x))
   \<rparr>"

section \<open>Example tables\<close>

definition table0 :: frame where
  "table0 = \<lparr>nrows = 2,
     cols = [(''MgO'', \<lambda>i. if i = 0 then Fin 10 else Fin 20),
             (''FeO'', \<lambda>i. if i = 0 then Fin 5 else Fin 0),
             (''Depth'', \<lambda>i. Fin 100)]\<rparr>"

definition table_fe :: frame where
  "table_fe = \<lparr>nrows = 2,
     cols = [(''FeO'', \<lambda>i. if i = 0 then Fin 5 else Fin (- 3)),
             (''Fe2O3'', \<lambda>i. if i = 0 then PInf else Fin 0)]\<rparr>"

definition table_ox :: frame where
  "table_ox = \<lparr>nrows = 2,
     cols = [(''MgO'', \<lambda>i. if i = 0 then Fin 10 else Fin 20),
             (''FeO'', \<lambda>i. if i = 0 then Fin 5 else Fin 1)]\<rparr>"

definition table_ree :: frame where
  "table_ree = \<lparr>nrows = 2,
     cols = [(''La'', \<lambda>i. if i = 0 then Fin 1 else NaN),
             (''Ce'', \<lambda>i. if i = 0 then Fin 2 else Fin 3)]\<rparr>"

definition table_incomplete :: frame where
  "table_incomplete = \<lparr>nrows = 3,
     cols = [(''La'', \<lambda>i. if i = 1 then Fin 1 else NaN),
             (''Ce'', \<lambda>i. if i = 2 then Fin 2 else NaN)]\<rparr>"

definition table_mg :: frame where
  "table_mg = \<lparr>nrows = 1, cols = [(''MgO'', \<lambda>i. Fin 10)]\<rparr>"

section \<open>Notions used to state the properties\<close>

text \<open>
  What a converted value adds to the sum of its row according to the specification:
  itself when it is finite and not negative, and nothing otherwise.
\<close>

definition spec_contribution :: "float64 \<Rightarrow> real" where
  "spec_contribution x = (case x of Fin a \<Rightarrow> if a < 0 then 0 else a | _ \<Rightarrow> 0)"

text \<open>
  The requested names that ask for a new iron component: those that contain \<^verbatim>\<open>Fe\<close>,
  are no column of the table, are no key of a mapping in the request, and are no ratio
  (contain no \<^verbatim>\<open>/\<close>), each as often as it is requested.
\<close>

definition missing_iron :: "string list \<Rightarrow> request list \<Rightarrow> string list" where
  "missing_iron cs to =
     filter (\<lambda>i. contains ''Fe'' i \<and> i \<notin> set cs
                \<and> i \<notin> set (concat (map (map fst) (coupled_sets to))) \<and> CHR ''/'' \<notin> set i)
       (names_of to)"

definition cells_finite :: "frame \<Rightarrow> bool" where
  "cells_finite df = (\<forall>(c, s) \<in> set (cols df). \<forall>i < nrows df. isfinite (s i))"

text \<open>Two tables with the same rows, the same column names in the same order, and
  the same value in every cell.\<close>

definition same_cells :: "frame \<Rightarrow> frame \<Rightarrow> bool" where
  "same_cells A B =
     (nrows A = nrows B \<and> columns A = columns B
      \<and> (\<forall>j < length (cols A). \<forall>i < nrows A. snd (cols A ! j) i = snd (cols B ! j) i))"

section \<open>Basic facts\<close>

lemma ebind_Inr [simp]: "ebind (Inr x) f = f x"
  by (simp add: ebind_def)

lemma ebind_Inl [simp]: "ebind (Inl e) f = Inl e"
  by (simp add: ebind_def)

lemma ebind_eq_Inr: "ebind m f = Inr y \<longleftrightarrow> (\<exists>x. m = Inr x \<and> f x = Inr y)"
  by (cases m) simp_all

text \<open>Evaluation looks at the continuation of a bind only once its first argument is
  known.\<close>

lemma ebind_weak_cong: "m = m' \<Longrightarrow> ebind m f = ebind m' f"
  by simp

lemmas env0_simps = env0_def formula_table_def cations_table_def oxides_table_def strip_suffix_def
  endswith_def non_oxygen_def chondrite_def closure_100_def inf_sign_def

lemmas frame_simps = columns_def getcol_def setcol_def drop_columns_def column_def loc_columns_def
  applymap_def frame_mask_set_def series_mask_set_def nansum_def row_values_def sum_axis1_def
  assign_columns_def apply_conversion_def close_def

lemmas agg_simps = first_cation_def common_cation_def cation_of_def candidate_species_def invalid_def
  cation_sum_def elemental_sum_def scalar_conversion_def speciation_def aggregate_element_core_def
  aggregate_element_def oxide_conversion_def conversion_factor_def convert_series_def pydiv_def
  factor_def

lemmas ratio_simps = split_on.simps ref_value_def ref_pair_def reference_pair_def ratio_name_def
  ratio_column_def add_ratio_def

lemmas mgno_simps = to_frame_def first_column_def MgNo_column_def add_MgNo_def molecular_weights_def
  div_columns_def to_molecular_def

lemmas ree_simps = all_null_column_def selected_ree_def null_in_row_def norm_abundances_def
  lognorm_row_def fit_rows_def coefficient_frame_def orow_def null_zero_rows_def append_function_def
  coerce_numeric_def lambda_lnREE_def

lemmas heap_simps = alloc_def add_ratio_ref_def add_MgNo_ref_def aggregate_element_ref_def
  recalculate_Fe_ref_def lambda_lnREE_ref_def

lemmas plan_simps = coupled_fe_def iron_targets_def make_plan_def renormalise_present_def iron_redox_def
  last_minute_checks_def convert_chemistry_ref_def convert_chemistry_def

text \<open>Strings and labels of the examples, evaluated once.\<close>

lemma lower_examples: "lower ''Fe'' = ''fe''" "lower ''Fe_N'' = ''fe_n''" "capitalise ''fe'' = ''Fe''"
  by code_simp+

lemma labels_2: "labels 2 = [[CHR 0xCE, CHR 0xBB, CHR ''0''], [CHR 0xCE, CHR 0xBB, CHR ''1'']]"
  by code_simp

lemma upt_2: "[0..<2] = [0, Suc 0]"
  by code_simp

lemma upt_3: "[0..<3] = [0, Suc 0, Suc (Suc 0)]"
  by code_simp

lemma lower_Mg: "lower ''Mg'' = ''mg''"
  by code_simp

lemma emap_Inr_iff: "emap f xs = Inr ys \<longleftrightarrow> list_all2 (\<lambda>x y. f x = Inr y) xs ys"
proof (induction xs arbitrary: ys)
  case Nil
  then show ?case by auto
next
  case (Cons x xs)
  show ?case
  proof (cases "f x")
    case (Inl e)
    then show ?thesis by (auto simp: list_all2_Cons1)
  next
    case (Inr y)
    then show ?thesis
      using Cons.IH by (cases "emap f xs") (auto simp: list_all2_Cons1)
  qed
qed

section \<open>Conversion factors\<close>





lemma factor_Inr:
  "factor E a b m = Inr f \<longleftrightarrow> (\<exists>cv. oxide_conversion E a b m = Inr cv \<and> conversion_factor cv = Inr f)"
  by (simp add: factor_def ebind_eq_Inr)

lemma factor_value:
  assumes "formula_of E a = Inr fa" "formula_of E b = Inr fb"
    and "non_oxygen fa = [(el, ca)]" "non_oxygen fb = [(el, cb)]"
    and "cb \<noteq> 0" "m \<or> mass fa \<noteq> 0"
  shows "factor E a b m = Inr (if m then ca / cb else ca / cb * mass fb / mass fa)"
  using assms
  by (auto simp: factor_def oxide_conversion_def conversion_factor_def pydiv_def Let_def)

text \<open>
  C5. For two forms that resolve to exactly one non-oxygen element, the same one, with
  non-zero atom counts and non-zero molecular weights, both conversion factors are
  returned, and the factor from the first to the second times the factor back is 1,
  for either value of the molecular flag.
\<close>

theorem conversion_factor_reciprocal:
  assumes "formula_of E a = Inr fa" "formula_of E b = Inr fb"
    and "non_oxygen fa = [(el, ca)]" "non_oxygen fb = [(el, cb)]"
    and "ca \<noteq> 0" "cb \<noteq> 0" "mass fa \<noteq> 0" "mass fb \<noteq> 0"
  shows "\<exists>fab fba. factor E a b m = Inr fab \<and> factor E b a m = Inr fba \<and> fab * fba = 1"
proof -
  have ab: "factor E a b m = Inr (if m then ca / cb else ca / cb * mass fb / mass fa)"
    using assms by (intro factor_value) auto
  have ba: "factor E b a m = Inr (if m then cb / ca else cb / ca * mass fa / mass fb)"
    using assms by (intro factor_value) auto
  have "(if m then ca / cb else ca / cb * mass fb / mass fa)
      * (if m then cb / ca else cb / ca * mass fa / mass fb) = 1"
    using assms by (simp add: field_simps)
  with ab ba show ?thesis by blast
qed

theorem conversion_factor_reciprocal_witness:
  "\<exists>fab fba. factor env0 ''FeO'' ''Fe2O3'' False = Inr fab
     \<and> factor env0 ''Fe2O3'' ''FeO'' False = Inr fba \<and> fab * fba = 1"
  using conversion_factor_reciprocal [of env0 "''FeO''" _ "''Fe2O3''" _ "''Fe''" 1 2 False]
  by (simp add: env0_def formula_table_def non_oxygen_def)

section \<open>The round trip between mass and molar basis\<close>

lemma molecular_weights_Inr:
  "molecular_weights E df = Inr ws \<longleftrightarrow>
     list_all2 (\<lambda>c w. \<exists>f. formula_of E c = Inr f \<and> mass f = w) (columns df) ws"
  unfolding molecular_weights_def emap_Inr_iff
  by (rule arg_cong [where f = "\<lambda>P. list_all2 P (columns df) ws"]) (auto simp: fun_eq_iff ebind_eq_Inr)

lemma columns_div_columns:
  "length ws = length (cols df) \<Longrightarrow> columns (div_columns df ws) = columns df"
proof -
  assume len: "length ws = length (cols df)"
  have "map (\<lambda>p. fst (fst p)) (zip (cols df) ws) = map fst (map fst (zip (cols df) ws))"
    by simp
  also have "\<dots> = map fst (cols df)" using len by (simp only: map_fst_zip)
  finally show ?thesis
    by (simp add: columns_def div_columns_def case_prod_beta comp_def)
qed

lemma columns_mul_columns:
  "length ws = length (cols df) \<Longrightarrow> columns (mul_columns df ws) = columns df"
proof -
  assume len: "length ws = length (cols df)"
  have "map (\<lambda>p. fst (fst p)) (zip (cols df) ws) = map fst (map fst (zip (cols df) ws))"
    by simp
  also have "\<dots> = map fst (cols df)" using len by (simp only: map_fst_zip)
  finally show ?thesis
    by (simp add: columns_def mul_columns_def case_prod_beta comp_def)
qed

lemma fmul_fdiv_cancel: "w \<noteq> 0 \<Longrightarrow> fmul (fdiv (Fin x) (Fin w)) (Fin w) = Fin x"
  by simp

text \<open>
  C4. For a table whose column names all resolve to a formula with a non-zero molecular
  weight and whose cells are all finite, \<^verbatim>\<open>to_molecular\<close> without renormalisation
  returns a table, \<^verbatim>\<open>to_weight\<close> without renormalisation returns a table for that
  one, and the result has the rows, the column names and, cell by cell, the values of the
  table started from.
\<close>

theorem to_weight_to_molecular_roundtrip:
  assumes res: "\<forall>c \<in> set (columns X). \<exists>f. formula_of E c = Inr f \<and> mass f \<noteq> 0"
    and fin: "cells_finite X"
  shows "\<exists>M W. to_molecular E X False = Inr M \<and> to_weight E M False = Inr W \<and> same_cells W X"
proof -
  define ws where "ws = map (\<lambda>c. mass (projr (formula_of E c))) (columns X)"
  have len: "length ws = length (cols X)" by (simp add: ws_def columns_def)
  have mw: "molecular_weights E X = Inr ws"
    unfolding molecular_weights_Inr ws_def list_all2_conv_all_nth
  proof (intro conjI allI impI)
    show "length (columns X) = length (map (\<lambda>c. mass (projr (formula_of E c))) (columns X))"
      by simp
    fix j assume "j < length (columns X)"
    then have "columns X ! j \<in> set (columns X)" by (rule nth_mem)
    with res obtain f where "formula_of E (columns X ! j) = Inr f" by blast
    then show "\<exists>f. formula_of E (columns X ! j) = Inr f
        \<and> mass f = map (\<lambda>c. mass (projr (formula_of E c))) (columns X) ! j"
      using \<open>j < length (columns X)\<close> by simp
  qed
  have nz: "\<forall>j < length ws. ws ! j \<noteq> 0"
  proof (intro allI impI)
    fix j assume j: "j < length ws"
    then have "columns X ! j \<in> set (columns X)" by (simp add: ws_def)
    with res obtain f where "formula_of E (columns X ! j) = Inr f" "mass f \<noteq> 0" by blast
    then show "ws ! j \<noteq> 0" using j by (simp add: ws_def)
  qed
  define M where "M = div_columns X ws"
  have colsM: "columns M = columns X" unfolding M_def using len by (rule columns_div_columns)
  have M: "to_molecular E X False = Inr M" by (simp add: to_molecular_def mw M_def)
  have mwM: "molecular_weights E M = Inr ws"
    using mw by (simp add: molecular_weights_Inr colsM)
  have W: "to_weight E M False = Inr (mul_columns M ws)" by (simp add: to_weight_def mwM)
  have "same_cells (mul_columns M ws) X"
    unfolding same_cells_def
  proof (intro conjI allI impI)
    show "nrows (mul_columns M ws) = nrows X" by (simp add: mul_columns_def M_def div_columns_def)
    have "length ws = length (cols M)" using len by (simp add: M_def div_columns_def)
    then show "columns (mul_columns M ws) = columns X"
      using colsM by (simp add: columns_mul_columns)
    fix j i assume j: "j < length (cols (mul_columns M ws))" and i: "i < nrows (mul_columns M ws)"
    have j': "j < length (cols X)" using j len by (simp add: mul_columns_def M_def div_columns_def)
    have i': "i < nrows X" using i by (simp add: mul_columns_def M_def div_columns_def)
    obtain c s where cs: "cols X ! j = (c, s)" by (cases "cols X ! j")
    have "(c, s) \<in> set (cols X)" using j' cs by (metis nth_mem)
    then have "isfinite (s i)" using fin i' by (auto simp: cells_finite_def)
    then obtain x where x: "s i = Fin x" by (cases "s i") auto
    have "ws ! j \<noteq> 0" using nz j' len by simp
    then show "snd (cols (mul_columns M ws) ! j) i = snd (cols X ! j) i"
      using j' len cs x by (simp add: mul_columns_def M_def div_columns_def)
  qed
  with M W show ?thesis by blast
qed

theorem to_weight_to_molecular_roundtrip_witness:
  "\<exists>M W. to_molecular env0 table_ox False = Inr M \<and> to_weight env0 M False = Inr W
     \<and> same_cells W table_ox"
  using to_weight_to_molecular_roundtrip [of table_ox env0]
  by (simp add: table_ox_def columns_def env0_def formula_table_def cells_finite_def)

section \<open>Rows of the elemental sum\<close>

lemma mask_invalid: "(if invalid x then Fin 0 else x) = Fin (spec_contribution x)"
  by (cases x) (auto simp: invalid_def spec_contribution_def)

lemma foldl_fadd_Fin:
  "foldl fadd (Fin a) (map (\<lambda>x. Fin (g x)) xs) = Fin (a + sum_list (map g xs))"
  by (induction xs arbitrary: a) (simp_all add: add.assoc)

lemma nansum_Fin: "nansum (map (\<lambda>x. Fin (g x)) xs) = Fin (sum_list (map g xs))"
proof -
  have "filter (\<lambda>x. \<not> isnull x) (map (\<lambda>x. Fin (g x)) xs) = map (\<lambda>x. Fin (g x)) xs"
    by (induction xs) simp_all
  then show ?thesis
    by (simp add: nansum_def foldl_fadd_Fin)
qed

lemma column_setcol: "column (setcol df c s) c' = (if c' = c then s else column df c')"
  by (simp add: column_def setcol_def getcol_def update_conv')

lemma columns_setcol_present: "c \<in> set (columns df) \<Longrightarrow> columns (setcol df c s) = columns df"
  by (simp add: columns_def setcol_def update_keys)

lemma nrows_setcol [simp]: "nrows (setcol df c s) = nrows df"
  by (simp add: setcol_def)

lemma row_values_columns:
  "distinct (columns df) \<Longrightarrow> row_values df i = map (\<lambda>c. column df c i) (columns df)"
proof -
  assume d: "distinct (columns df)"
  have "\<And>p. p \<in> set (cols df) \<Longrightarrow> map_of (cols df) (fst p) = Some (snd p)"
    using d by (simp add: columns_def)
  then show ?thesis
    by (auto simp: row_values_def columns_def column_def getcol_def case_prod_beta)
qed

lemma convert_species_result:
  assumes "distinct ss" "set ss \<subseteq> set (columns subdf)" "0 < nrows subdf"
    and "\<forall>s \<in> set ss. factor E (remove_suffix E s suf) cat mol = Inr (fac s)"
  shows "\<exists>out. convert_species E cat suf mol subdf ss = Inr out \<and> nrows out = nrows subdf
            \<and> columns out = columns subdf
            \<and> (\<forall>c. column out c = (if c \<in> set ss then (\<lambda>i. fmul (column subdf c i) (Fin (fac c)))
                                   else column subdf c))"
  using assms
proof (induction ss arbitrary: subdf)
  case Nil
  then show ?case by simp
next
  case (Cons s ss)
  from Cons.prems(4) obtain cv where cv: "oxide_conversion E (remove_suffix E s suf) cat mol = Inr cv"
    "conversion_factor cv = Inr (fac s)"
    by (auto simp: factor_Inr)
  define conv where "conv = (\<lambda>i. fmul (column subdf s i) (Fin (fac s)))"
  define sub' where "sub' = setcol subdf s conv"
  have ap: "apply_conversion (nrows subdf) cv (column subdf s) = Inr conv"
    using Cons.prems(3) cv by (simp add: apply_conversion_def conv_def)
  have step: "convert_species E cat suf mol subdf (s # ss) = convert_species E cat suf mol sub' ss"
    by (simp add: cv ap sub'_def)
  have s_in: "s \<in> set (columns subdf)" using Cons.prems(2) by simp
  have cols': "columns sub' = columns subdf" unfolding sub'_def using s_in by (rule columns_setcol_present)
  have "\<exists>out. convert_species E cat suf mol sub' ss = Inr out \<and> nrows out = nrows sub'
            \<and> columns out = columns sub'
            \<and> (\<forall>c. column out c = (if c \<in> set ss then (\<lambda>i. fmul (column sub' c i) (Fin (fac c)))
                                   else column sub' c))"
  proof (rule Cons.IH)
    show "distinct ss" using Cons.prems(1) by simp
    show "set ss \<subseteq> set (columns sub')" using Cons.prems(2) by (simp add: cols')
    show "0 < nrows sub'" using Cons.prems(3) by (simp add: sub'_def)
    show "\<forall>s\<in>set ss. factor E (remove_suffix E s suf) cat mol = Inr (fac s)"
      using Cons.prems(4) by simp
  qed
  then obtain out where out: "convert_species E cat suf mol sub' ss = Inr out" "nrows out = nrows sub'"
    "columns out = columns sub'"
    "\<forall>c. column out c = (if c \<in> set ss then (\<lambda>i. fmul (column sub' c i) (Fin (fac c))) else column sub' c)"
    by blast
  have "s \<notin> set ss" using Cons.prems(1) by simp
  then have "\<forall>c. column out c = (if c \<in> set (s # ss) then (\<lambda>i. fmul (column subdf c i) (Fin (fac c)))
                                   else column subdf c)"
    using out(4) by (auto simp: sub'_def column_setcol conv_def)
  with out step cols' show ?case by (simp add: sub'_def)
qed


lemma row_values_applymap: "row_values (applymap f df) i = map f (row_values df i)"
  by (simp add: row_values_def applymap_def case_prod_beta comp_def)

lemma columns_applymap [simp]: "columns (applymap f df) = columns df"
  by (simp add: columns_def applymap_def case_prod_beta comp_def)

lemma nrows_applymap [simp]: "nrows (applymap f df) = nrows df"
  by (simp add: applymap_def)

lemma column_applymap:
  "c \<in> set (columns df) \<Longrightarrow> column (applymap f df) c = (\<lambda>i. f (column df c i))"
proof -
  assume "c \<in> set (columns df)"
  then obtain s where s: "map_of (cols df) c = Some s"
    by (metis columns_def map_of_eq_None_iff not_None_eq set_map)
  have "map_of (map (\<lambda>(c, s). (c, \<lambda>i. f (s i))) (cols df)) c = map_option (\<lambda>s i. f (s i)) (map_of (cols df) c)"
    by (induction "cols df") (auto simp: map_of_map)
  then show ?thesis using s by (simp add: column_def getcol_def applymap_def)
qed

lemma loc_columns_present:
  assumes "set names \<subseteq> set (columns df)"
  shows "loc_columns df names = Inr (df\<lparr>cols := map (\<lambda>c. (c, column df c)) names\<rparr>)"
proof -
  have "filter (\<lambda>c. c \<notin> set (columns df)) names = []"
    using assms by (auto simp: filter_empty_conv)
  then show ?thesis by (simp add: loc_columns_def)
qed

lemma column_selected:
  "c \<in> set names \<Longrightarrow> column (df\<lparr>cols := map (\<lambda>c. (c, column df c)) names\<rparr>) c = column df c"
proof -
  assume "c \<in> set names"
  then have "map_of (map (\<lambda>c. (c, column df c)) names) c = Some (column df c)"
    by (induction names) auto
  then show ?thesis by (simp add: column_def getcol_def)
qed

lemma columns_selected [simp]:
  "columns (df\<lparr>cols := map (\<lambda>c. (c, g c)) names\<rparr>) = names"
  by (simp add: columns_def comp_def)

lemma candidate_species_props:
  "distinct (candidate_species df cat oxs suf)"
  "set (candidate_species df cat oxs suf) \<subseteq> set (columns df)"
  by (auto simp: candidate_species_def Let_def)

lemma cation_sum_rows:
  assumes sp: "species \<noteq> []" "distinct species" "set species \<subseteq> set (columns df)"
    and fac: "\<forall>s\<in>set species. factor E (remove_suffix E s suf) cat molecular = Inr (fac s)"
    and i: "i < nrows df"
  shows "\<exists>sub. cation_sum E df cat species suf logdata molecular = Inr sub \<and>
       sub i = (let total = (\<Sum>s\<leftarrow>species. spec_contribution
                      (fmul ((if logdata then fexp else id) (column df s i)) (Fin (fac s))))
                in if total \<le> 0 then NaN else Fin total)"
proof -
  define pre where "pre = (if logdata then fexp else id)"
  define sub0 where "sub0 = df\<lparr>cols := map (\<lambda>c. (c, column df c)) species\<rparr>"
  define sub1 where "sub1 = (if logdata then applymap fexp sub0 else sub0)"
  have loc: "loc_columns df species = Inr sub0"
    unfolding sub0_def using sp(3) by (rule loc_columns_present)
  have cols1: "columns sub1 = species" by (simp add: sub1_def sub0_def)
  have n1: "nrows sub1 = nrows df" by (simp add: sub1_def sub0_def)
  have col1: "column sub1 c = (\<lambda>i. pre (column df c i))" if "c \<in> set species" for c
  proof (cases logdata)
    case True
    have "c \<in> set (columns sub0)" using that by (simp add: sub0_def)
    then have "column (applymap fexp sub0) c = (\<lambda>i. fexp (column sub0 c i))"
      by (rule column_applymap)
    then show ?thesis using True that by (simp add: sub1_def pre_def sub0_def column_selected)
  next
    case False
    then show ?thesis using that by (simp add: sub1_def pre_def sub0_def column_selected)
  qed
  have "\<exists>out. convert_species E cat suf molecular sub1 species = Inr out \<and> nrows out = nrows sub1
            \<and> columns out = columns sub1
            \<and> (\<forall>c. column out c = (if c \<in> set species then (\<lambda>i. fmul (column sub1 c i) (Fin (fac c)))
                                   else column sub1 c))"
    using sp(2) fac i by (intro convert_species_result) (simp_all add: cols1 n1)
  then obtain out where out: "convert_species E cat suf molecular sub1 species = Inr out"
    "columns out = species"
    "\<forall>c. column out c = (if c \<in> set species then (\<lambda>i. fmul (column sub1 c i) (Fin (fac c)))
                                   else column sub1 c)"
    using cols1 by auto
  have rv: "row_values out i = map (\<lambda>c. fmul (pre (column df c i)) (Fin (fac c))) species"
  proof -
    have "row_values out i = map (\<lambda>c. column out c i) (columns out)"
      using sp(2) out(2) by (intro row_values_columns) simp
    also have "\<dots> = map (\<lambda>c. fmul (pre (column df c i)) (Fin (fac c))) species"
      using out(2,3) col1 by simp
    finally show ?thesis .
  qed
  have "sum_axis1 (frame_mask_set invalid (Fin 0) out) i
      = Fin (\<Sum>s\<leftarrow>species. spec_contribution (fmul (pre (column df s i)) (Fin (fac s))))"
    by (simp add: sum_axis1_def frame_mask_set_def row_values_applymap rv mask_invalid comp_def
        nansum_Fin)
  moreover have "cation_sum E df cat species suf logdata molecular
      = Inr (series_mask_set le0 NaN (sum_axis1 (frame_mask_set invalid (Fin 0) out)))"
    using sp(1) loc out(1) by (simp add: cation_sum_def sub1_def)
  ultimately show ?thesis
    by (simp add: series_mask_set_def pre_def Let_def)
qed

text \<open>
  C3. When at least one candidate species of the cation is a column and the conversions
  exist, \<^verbatim>\<open>elemental_sum\<close> returns a series, and its value in every row is found
  from that row alone: each converted candidate value counts with itself when it is
  finite and not negative and with zero otherwise; the row is missing when the sum of
  these is not positive, and is the sum otherwise (times the factor to \<^verbatim>\<open>to\<close> when a
  target is given).
\<close>

theorem elemental_sum_rows:
  assumes cat: "cation_of E component suf = Inr cat"
    and oxs: "simple_oxides E cat = Inr oxs"
    and sp: "species = candidate_species df cat oxs suf" "species \<noteq> []"
    and fac: "\<forall>s\<in>set species. factor E (remove_suffix E s suf) cat molecular = Inr (fac s)"
    and to: "\<forall>t. to = Some t \<longrightarrow> factor E cat t molecular = Inr ft"
    and i: "i < nrows df"
  shows "\<exists>S. elemental_sum E df component to suf logdata molecular = Inr S \<and>
       svals S i =
         (let total = (\<Sum>s\<leftarrow>species. spec_contribution
                         (fmul ((if logdata then fexp else id) (column df s i)) (Fin (fac s))))
          in if total \<le> 0 then NaN
             else case to of None \<Rightarrow> Fin total | Some t \<Rightarrow> Fin (total * ft))"
proof -
  obtain sub where sub: "cation_sum E df cat species suf logdata molecular = Inr sub"
    "sub i = (let total = (\<Sum>s\<leftarrow>species. spec_contribution
                      (fmul ((if logdata then fexp else id) (column df s i)) (Fin (fac s))))
                in if total \<le> 0 then NaN else Fin total)"
    using cation_sum_rows [OF sp(2) _ _ fac i, of logdata] candidate_species_props [of df cat oxs suf] sp(1)
    by auto
  show ?thesis
  proof (cases to)
    case None
    then show ?thesis using cat oxs sub sp(1) by (simp add: elemental_sum_def Let_def)
  next
    case (Some t)
    then obtain cv where cv: "oxide_conversion E cat t molecular = Inr cv" "conversion_factor cv = Inr ft"
      using to by (auto simp: factor_Inr)
    have "apply_conversion (nrows df) cv sub = Inr (\<lambda>i. fmul (sub i) (Fin ft))"
      using i cv by (simp add: apply_conversion_def)
    then show ?thesis using Some cat oxs sub sp(1) cv by (simp add: elemental_sum_def Let_def)
  qed
qed


theorem elemental_sum_rows_witness:
  "(\<exists>S. elemental_sum env0 table_fe (Str ''Fe'') None ''T'' False True = Inr S \<and> svals S 0 = Fin 5)
   \<and> (\<exists>S. elemental_sum env0 table_fe (Str ''Fe'') None ''T'' False True = Inr S \<and> svals S 1 = NaN)"
  using elemental_sum_rows [where E = env0 and component = "Str ''Fe''" and suf = "''T''"
      and cat = "''Fe''" and oxs = "[''FeO'', ''Fe2O3'']" and species = "[''FeO'', ''Fe2O3'']"
      and df = table_fe and molecular = True
      and fac = "\<lambda>s. if s = ''FeO'' then 1 else 2" and to = None and ft = 1 and i = 0
      and logdata = False]
    elemental_sum_rows [where E = env0 and component = "Str ''Fe''" and suf = "''T''"
      and cat = "''Fe''" and oxs = "[''FeO'', ''Fe2O3'']" and species = "[''FeO'', ''Fe2O3'']"
      and df = table_fe and molecular = True
      and fac = "\<lambda>s. if s = ''FeO'' then 1 else 2" and to = None and ft = 1 and i = 1
      and logdata = False]
  by (simp add: env0_simps frame_simps agg_simps table_fe_def spec_contribution_def Let_def
      cong: ebind_weak_cong)


section \<open>Redistribution conserves the cation\<close>







section \<open>Renormalisation after redistribution\<close>

text \<open>The tables that classify names as elements and oxides play no part in
  \<^verbatim>\<open>aggregate_element\<close>.\<close>

lemma tables_unused:
  fixes E ox el
  defines "E' \<equiv> E\<lparr>common_oxides := ox, common_elements := el\<rparr>"
  shows "oxide_conversion E' a b m = oxide_conversion E a b m"
    and "first_cation E' c suf = first_cation E c suf"
    and "common_cation E' ns suf = common_cation E ns suf"
    and "convert_species E' c suf m d ss = convert_species E c suf m d ss"
proof -
  show oc: "oxide_conversion E' a b m = oxide_conversion E a b m" for a b m
    by (simp add: oxide_conversion_def E'_def)
  show fc: "first_cation E' c suf = first_cation E c suf" for c suf
    by (simp add: first_cation_def E'_def)
  show "common_cation E' ns suf = common_cation E ns suf"
    by (simp add: common_cation_def fc)
  show "convert_species E' c suf m d ss = convert_species E c suf m d ss"
    by (induction ss arbitrary: d) (simp_all add: oc, simp add: E'_def)
qed

lemma aggregate_element_tables:
  "aggregate_element (E\<lparr>common_oxides := ox, common_elements := el\<rparr>) df to suf l r m
   = aggregate_element E df to suf l r m"
proof -
  define E' where "E' = E\<lparr>common_oxides := ox, common_elements := el\<rparr>"
  note t = tables_unused [where E = E and ox = ox and el = el, folded E'_def]
  have so: "simple_oxides E' = simple_oxides E" "renormalise E' = renormalise E"
    "remove_suffix E' = remove_suffix E"
    by (simp_all add: E'_def)
  have co: "cation_of E' to suf = cation_of E to suf"
    by (simp add: cation_of_def t split: target.splits)
  have cs: "cation_sum E' df c sp suf l m = cation_sum E df c sp suf l m" for c sp
    by (simp add: cation_sum_def t)
  have es: "elemental_sum E' df to None suf l m = elemental_sum E df to None suf l m"
    by (simp add: elemental_sum_def co so cs)
  have sc: "scalar_conversion E' = scalar_conversion E"
    by (intro ext) (simp add: scalar_conversion_def t)
  have sp: "speciation E' c sps to suf m = speciation E c sps to suf m" for c sps
    by (simp add: speciation_def sc so Let_def split: target.splits)
  have "aggregate_element_core E' df to suf l m = aggregate_element_core E df to suf l m"
    by (simp add: aggregate_element_core_def es so sp Let_def)
  then show ?thesis
    unfolding E'_def [symmetric] by (simp add: aggregate_element_def so cong: if_cong)
qed

text \<open>
  C8, as the code has it. With \<^verbatim>\<open>renorm=True\<close>, \<^verbatim>\<open>aggregate_element\<close> hands the
  whole table that the call without \<^verbatim>\<open>renorm\<close> returns to \<^verbatim>\<open>renormalise\<close> and returns
  what that gives; no column is set aside as non-compositional: the result is the same
  whatever the tables of elements and oxides hold.
\<close>

theorem aggregate_element_renorm_whole_table:
  "aggregate_element E df to suf logdata True molecular =
     (case aggregate_element E df to suf logdata False molecular of
        Inl e \<Rightarrow> Inl e
      | Inr out \<Rightarrow> Inr (renormalise E out))
   \<and> aggregate_element (E\<lparr>common_oxides := ox, common_elements := el\<rparr>) df to suf logdata True
        molecular
     = aggregate_element E df to suf logdata True molecular"
proof
  show "aggregate_element E df to suf logdata True molecular =
     (case aggregate_element E df to suf logdata False molecular of
        Inl e \<Rightarrow> Inl e
      | Inr out \<Rightarrow> Inr (renormalise E out))"
    by (cases "aggregate_element_core E df to suf logdata molecular")
       (auto simp: aggregate_element_def)
  show "aggregate_element (E\<lparr>common_oxides := ox, common_elements := el\<rparr>) df to suf logdata True
        molecular
     = aggregate_element E df to suf logdata True molecular"
    by (rule aggregate_element_tables)
qed

text \<open>With the closure over all columns as \<^verbatim>\<open>renormalise\<close>, the column \<^verbatim>\<open>Depth\<close>,
  which is neither an element nor an oxide, changes from 100 to 2000/23.\<close>

theorem aggregate_element_renorm_counterexample:
  "\<exists>out. aggregate_element env0 table0 (Str ''MgO'') ''T'' False True False = Inr out
     \<and> ''Depth'' \<notin> set (common_oxides env0 @ common_elements env0)
     \<and> column table0 ''Depth'' 0 = Fin 100
     \<and> column out ''Depth'' 0 = Fin (2000 / 23)"
  by (simp add: env0_simps frame_simps agg_simps table0_def Let_def
      cong: ebind_weak_cong)

section \<open>Ratios and the reference composition\<close>

text \<open>Whatever reference is given, the ratio column is the same: the reference values
  have no part in it.\<close>

lemma ratio_column_norm_irrelevant:
  assumes "ratio_column E df ratio alias nt m = Inr r" "ratio_column E df ratio alias nt' m = Inr r'"
  shows "r = r'"
  using assms
  by (auto simp: ratio_column_def Let_def ebind_eq_Inr split: list.splits if_splits)


text \<open>
  C2, at a failing input. On the table with \<^verbatim>\<open>MgO = 10\<close> and \<^verbatim>\<open>FeO = 5\<close> in its
  first row (molecular data), \<^verbatim>\<open>add_ratio\<close> with the reference values 2 and 4 given
  as a pair, and with the \<^verbatim>\<open>_N\<close> suffix and the default reference holding the same two
  values, writes the plain ratio 10 / 5 = 2; the normalised ratio would be
  (10 / 2) / (5 / 4) = 4.
\<close>

theorem add_ratio_reference_unused:
  "(\<exists>out. add_ratio env0 table0 ''Mg/Fe'' None (NormSeq [2, 4]) True = Inr out
       \<and> column out ''Mg/Fe'' 0 = Fin 2)
   \<and> (\<exists>out. add_ratio env0 table0 ''Mg/Fe_N'' None NormNone True = Inr out
       \<and> column out ''Mg/Fe_N'' 0 = Fin 2)
   \<and> reference_pair env0 NormNone ''Mg'' ''Fe'' = Inr (2, 4)"
  by (simp add: env0_simps frame_simps agg_simps split_on.simps lower_examples ratio_simps table0_def
      Let_def cong: ebind_weak_cong)

section \<open>Rows of the lambda fit\<close>

lemma set_update_subset: "set (AList.update k v al) \<subseteq> insert (k, v) (set al)"
  by (induction al) auto

lemma fit_rows_keys:
  assumes "fit_rows E df ree abund radii ps deg = Inr fits"
  shows "map fst fits = filter (\<lambda>i. \<not> null_in_row df ree i) [0..<nrows df]"
proof -
  define valid where "valid = filter (\<lambda>i. \<not> null_in_row df ree i) [0..<nrows df]"
  from assms have "emap (\<lambda>i. ebind (lambdas E (lognorm_row df ree abund i) radii ps deg)
                               (\<lambda>cs. Inr (i, cs))) valid = Inr fits"
    by (auto simp: fit_rows_def Let_def valid_def ebind_eq_Inr split: if_splits)
  then have "list_all2 (\<lambda>i y. ebind (lambdas E (lognorm_row df ree abund i) radii ps deg)
                               (\<lambda>cs. Inr (i, cs)) = Inr y) valid fits"
    by (simp add: emap_Inr_iff)
  then have "list_all2 (\<lambda>i y. fst y = i) valid fits"
    by (rule list_all2_mono) (auto simp: ebind_eq_Inr)
  then have "map fst fits = valid"
    by (induction valid fits rule: list_all2_induct) auto
  then show ?thesis by (simp add: valid_def)
qed

lemma coefficient_null_row:
  assumes "i \<notin> set (map fst fits)" "(l, s) \<in> set (ocols (coefficient_frame n deg fits))"
  shows "s i = Number NaN"
proof -
  from assms(1) have "map_of fits i = None" by (simp add: map_of_eq_None_iff)
  with assms(2) show ?thesis by (auto simp: coefficient_frame_def)
qed

lemma null_zero_rows_null_row:
  assumes "\<forall>(l, s) \<in> set (ocols odf). s i = Number NaN" "(l, s) \<in> set (ocols (null_zero_rows odf))"
  shows "s i = Number NaN"
  using assms by (auto simp: null_zero_rows_def)

lemma coerce_null_row:
  assumes "\<forall>(l, s) \<in> set (ocols odf). to_numeric (s i) = NaN" "(l, s) \<in> set (cols (coerce_numeric odf))"
  shows "s i = NaN"
  using assms by (auto simp: coerce_numeric_def)

text \<open>
  Whenever \<^verbatim>\<open>lambda_lnREE\<close> returns a table, it has as many rows as the input,
  and in every row where a selected rare-earth column is missing a value (so also in
  every row where all of them are), every column of the output is missing.
\<close>

theorem lambda_lnREE_rows:
  assumes ok: "lambda_lnREE E df norm_to exclude params degree appnd scale = Inr out"
  shows "nrows out = nrows df
     \<and> (\<forall>i<nrows df. (\<exists>c \<in> set (selected_ree E df exclude). isnull (column df c i))
           \<longrightarrow> (\<forall>(l, s) \<in> set (cols out). s i = NaN))"
proof -
  define ree where "ree = selected_ree E df exclude"
  from ok obtain radii ps deg abund fits where
    fits: "fit_rows E df ree abund radii ps deg = Inr fits"
    and out: "out = coerce_numeric
       (case appnd of
          None \<Rightarrow> null_zero_rows (coefficient_frame (nrows df) deg fits)
        | Some ap \<Rightarrow> if ''function'' \<in> set ap
                     then append_function E (null_zero_rows (coefficient_frame (nrows df) deg fits)) radii ps deg
                     else null_zero_rows (coefficient_frame (nrows df) deg fits))"
    by (auto simp: lambda_lnREE_def Let_def ree_def ebind_eq_Inr split: if_splits prod.splits)
  define base where "base = null_zero_rows (coefficient_frame (nrows df) deg fits)"
  have n: "nrows out = nrows df"
    by (auto simp: out coerce_numeric_def null_zero_rows_def coefficient_frame_def append_function_def
        split: option.splits)
  have rows: "\<forall>(l, s) \<in> set (cols out). s i = NaN"
    if i: "i < nrows df" and nul: "\<exists>c \<in> set ree. isnull (column df c i)" for i
  proof -
    have "null_in_row df ree i" using nul by (auto simp: null_in_row_def list_ex_iff)
    then have "i \<notin> set (map fst fits)" by (simp add: fit_rows_keys [OF fits])
    then have c: "\<forall>(l, s) \<in> set (ocols (coefficient_frame (nrows df) deg fits)). s i = Number NaN"
      using coefficient_null_row by blast
    have b: "\<forall>(l, s) \<in> set (ocols base). s i = Number NaN"
      unfolding base_def using null_zero_rows_null_row [OF c] by blast
    have a: "\<forall>(l, s) \<in> set (ocols (append_function E base radii ps deg)). to_numeric (s i) = NaN"
      using b set_update_subset [of "''lambda_poly_func''" _ "ocols base"]
      by (fastforce simp: append_function_def)
    have b': "\<forall>(l, s) \<in> set (ocols base). to_numeric (s i) = NaN" using b by auto
    show ?thesis
    proof (cases appnd)
      case None
      then show ?thesis using coerce_null_row [OF b'] by (auto simp: out base_def)
    next
      case (Some ap)
      then show ?thesis using coerce_null_row [OF b'] coerce_null_row [OF a]
        by (auto simp: out base_def)
    qed
  qed
  from n rows show ?thesis unfolding ree_def by blast
qed

theorem lambda_lnREE_rows_witness:
  "\<exists>out. lambda_lnREE env0 table_ree NormNone [] None 2 (Some []) ''ppm'' = Inr out
     \<and> nrows out = nrows table_ree \<and> list_all (\<lambda>(l, s). s 1 = NaN) (cols out)
     \<and> column out [CHR 0xCE, CHR 0xBB, CHR ''0''] 0 = Fin 1"
proof -
  obtain out where ok: "lambda_lnREE env0 table_ree NormNone [] None 2 (Some []) ''ppm'' = Inr out"
    and v: "column out [CHR 0xCE, CHR 0xBB, CHR ''0''] 0 = Fin 1"
    by (simp add: env0_simps frame_simps ree_simps table_ree_def Let_def upt_2
        del: labels_def add: labels_2 cong: ebind_weak_cong)
  have sel: "''La'' \<in> set (selected_ree env0 table_ree [])" "isnull (column table_ree ''La'' 1)"
    by (simp_all add: env0_simps frame_simps ree_simps table_ree_def upt_2)
  have i: "(1::nat) < nrows table_ree" by (simp add: table_ree_def)
  from lambda_lnREE_rows [OF ok]
  have n: "nrows out = nrows table_ree"
    and r: "\<forall>i<nrows table_ree. (\<exists>c \<in> set (selected_ree env0 table_ree []). isnull (column table_ree c i))
           \<longrightarrow> (\<forall>(l, s) \<in> set (cols out). s i = NaN)"
    by blast+
  from r i sel have "\<forall>(l, s) \<in> set (cols out). s 1 = NaN" by blast
  with ok v n show ?thesis by (auto simp: list_all_iff)
qed

text \<open>The call does not always return. The fit goes through \<^verbatim>\<open>np.apply_along_axis\<close>
  over the rows without a missing value, which raises when there is none: whatever the
  fitting routines, a table in which every row misses a selected value gets no output
  table at all.\<close>

lemma fit_rows_no_complete_row:
  assumes "\<forall>i<nrows df. null_in_row df ree i"
  shows "fit_rows E df ree abund radii ps deg
    = Inl (ValueError ''Cannot apply_along_axis when any iteration dimensions are 0'')"
proof -
  from assms have "filter (\<lambda>i. \<not> null_in_row df ree i) [0..<nrows df] = []"
    by (simp add: filter_empty_conv)
  then show ?thesis by (simp add: fit_rows_def)
qed

lemma lambda_lnREE_no_complete_row:
  assumes "\<forall>i<nrows df. null_in_row df (selected_ree E df exclude) i"
  shows "\<exists>e. lambda_lnREE E df norm_to exclude params degree appnd scale = Inl e"
proof (cases "lambda_lnREE E df norm_to exclude params degree appnd scale")
  case (Inl e)
  then show ?thesis by blast
next
  case (Inr out)
  then obtain abund radii ps deg fits where
    "fit_rows E df (selected_ree E df exclude) abund radii ps deg = Inr fits"
    by (auto simp: lambda_lnREE_def Let_def ebind_eq_Inr split: if_splits prod.splits)
  with fit_rows_no_complete_row [OF assms] show ?thesis by simp
qed

text \<open>
  C6, at a failing input. The table has three rows and two rare-earth columns, neither
  of them all missing, so both are selected: \<^verbatim>\<open>La = [nan, 1, nan]\<close> and
  \<^verbatim>\<open>Ce = [nan, nan, 2]\<close>. In row 0 all selected values are missing, and no row is
  complete. The call does not return a table of three rows with a missing coefficient
  vector in row 0: it raises the value error of \<^verbatim>\<open>np.apply_along_axis\<close>.
\<close>

theorem lambda_lnREE_no_complete_row_raises:
  "nrows table_incomplete = 3
   \<and> selected_ree env0 table_incomplete [] = [''La'', ''Ce'']
   \<and> isnull (column table_incomplete ''La'' 0) \<and> isnull (column table_incomplete ''Ce'' 0)
   \<and> lambda_lnREE env0 table_incomplete NormNone [] None 2 None ''ppm''
       = Inl (ValueError ''Cannot apply_along_axis when any iteration dimensions are 0'')"
  by (simp add: env0_simps frame_simps ree_simps table_incomplete_def Let_def upt_3
        del: labels_def add: labels_2 cong: ebind_weak_cong)

text \<open>When the function is asked for, its column is there, and after the final coercion
  to numbers every value in it is missing.\<close>

lemma lambda_lnREE_function_null:
  assumes ok: "lambda_lnREE E df norm_to exclude params degree (Some ap) scale = Inr out"
    and ap: "''function'' \<in> set ap"
  shows "''lambda_poly_func'' \<in> set (columns out) \<and> (\<forall>i. column out ''lambda_poly_func'' i = NaN)"
proof -
  from ok ap obtain odf radii ps deg where
    out: "out = coerce_numeric (append_function E odf radii ps deg)"
    by (auto simp: lambda_lnREE_def Let_def ebind_eq_Inr split: if_splits prod.splits)
  define f where "f = (\<lambda>i. Callable (lambda_poly_func E (map to_numeric (orow odf i)) radii ps deg))"
  have cols: "cols out = map (\<lambda>(l, s). (l, \<lambda>i. to_numeric (s i)))
                (AList.update ''lambda_poly_func'' f (ocols odf))"
    by (simp add: out coerce_numeric_def append_function_def f_def)
  have "map_of (cols out) ''lambda_poly_func''
     = map_option (\<lambda>s i. to_numeric (s i)) (map_of (AList.update ''lambda_poly_func'' f (ocols odf)) ''lambda_poly_func'')"
    unfolding cols by (simp add: map_of_map)
  also have "\<dots> = Some (\<lambda>i. NaN)"
    by (simp add: update_conv' f_def)
  finally have m: "map_of (cols out) ''lambda_poly_func'' = Some (\<lambda>i. NaN)" .
  then have "''lambda_poly_func'' \<in> set (columns out)"
    unfolding columns_def by (metis map_of_eq_None_iff option.distinct(1) set_map)
  with m show ?thesis by (simp add: column_def getcol_def)
qed

text \<open>
  C7, at a failing input. With \<^verbatim>\<open>append=["function"]\<close> on a table with one complete
  row, the output has the two coefficient columns and the column
  \<^verbatim>\<open>lambda_poly_func\<close>; the coefficient of the complete row is a number, and the value
  of the function column in that row is missing, not a function.
\<close>

theorem lambda_lnREE_function_column:
  "\<exists>out. lambda_lnREE env0 table_ree NormNone [] None 2 (Some [''function'']) ''ppm'' = Inr out
     \<and> columns out = labels 2 @ [''lambda_poly_func'']
     \<and> column out (labels 2 ! 0) 0 = Fin 1
     \<and> column out ''lambda_poly_func'' 0 = NaN"
  by (simp add: env0_simps frame_simps ree_simps table_ree_def Let_def upt_2
        del: labels_def add: labels_2 cong: ebind_weak_cong)

section \<open>More than one iron target\<close>

text \<open>The lists of \<^verbatim>\<open>convert_chemistry\<close> in terms of the request: the new ratios are
  the requested names with a \<^verbatim>\<open>/\<close> that are no column, and the iron targets are the
  mappings whose keys all contain \<^verbatim>\<open>Fe\<close> when there is one, and otherwise the
  requested names that ask for a new iron component.\<close>

lemma new_ratios_Inr:
  "new_ratios cs to = Inr nr \<Longrightarrow> nr = filter (\<lambda>s. CHR ''/'' \<in> set s \<and> s \<notin> set cs) (names_of to)"
proof (induction cs to arbitrary: nr rule: new_ratios.induct)
  case (1 cs)
  then show ?case by simp
next
  case (2 cs s rs)
  from "2.prems" obtain r where r: "new_ratios cs rs = Inr r"
    and nr: "nr = (if CHR ''/'' \<in> set s \<and> s \<notin> set cs then s # r else r)"
    by (auto simp: ebind_eq_Inr)
  from "2.IH" [OF r] nr show ?case by simp
next
  case (3 cs d rs)
  then show ?case by (simp split: if_splits)
qed

lemma make_plan_get_fe:
  assumes "make_plan E cs to = Inr p"
  shows "get_fe p = (if coupled_fe to \<noteq> [] then map Dict (coupled_fe to)
                     else map Str (missing_iron cs to))"
proof -
  define comp where "comp = common_oxides E @ common_elements E"
  define cc where "cc = concat (map (map fst) (coupled_sets to))"
  define present where "present = filter (\<lambda>i. i \<in> set comp) cs @ cc"
  define nc where "nc = filter (\<lambda>i. i \<notin> set present) cs"
  from assms obtain nr where nr: "new_ratios cs to = Inr nr"
    and fe: "get_fe p = iron_targets to
        (filter (\<lambda>i. i \<notin> set present) (filter (\<lambda>i. i \<notin> set nc \<and> i \<notin> set nr) (names_of to)))"
    by (auto simp: make_plan_def Let_def ebind_eq_Inr comp_def cc_def present_def nc_def)
  have nrs: "set nr = {s \<in> set (names_of to). CHR ''/'' \<in> set s \<and> s \<notin> set cs}"
    using new_ratios_Inr [OF nr] by auto
  have "filter (contains ''Fe'')
          (filter (\<lambda>i. i \<notin> set present) (filter (\<lambda>i. i \<notin> set nc \<and> i \<notin> set nr) (names_of to)))
        = missing_iron cs to"
    unfolding missing_iron_def cc_def [symmetric] filter_filter
    by (rule filter_cong) (auto simp: nrs nc_def present_def)
  with fe show ?thesis by (simp add: iron_targets_def)
qed

text \<open>
  C9, as the code has it. When the request holds two or more mappings whose keys all
  contain \<^verbatim>\<open>Fe\<close>, or holds no such mapping and two or more names that ask for a new
  iron component (they contain \<^verbatim>\<open>Fe\<close>, are no column of the table, no key of a
  mapping and no ratio), \<^verbatim>\<open>convert_chemistry\<close> returns no table. The error is the
  not-implemented error with its fixed message, which names no target, unless deriving
  the lists or aggregating the other requested components has raised before.
\<close>

theorem convert_chemistry_multiple_iron:
  assumes many: "1 < length (coupled_fe to)
      \<or> (coupled_fe to = [] \<and> 1 < length (missing_iron (columns (h ! a)) to))"
  shows "(\<exists>e. convert_chemistry_ref E h a to logdata renorm molecular = Inl e)
     \<and> (\<forall>p h1 d1. make_plan E (columns (h ! a)) to = Inr p
           \<and> aggregate_all E (h @ [h ! a]) (length h) (to_aggregate p) logdata molecular = Inr (h1, d1)
         \<longrightarrow> convert_chemistry_ref E h a to logdata renorm molecular
             = Inl (NotImplementedError ''Need to specify speciation for >1 Fe components.''))"
proof -
  have guard: "1 < length (get_fe p)" if "make_plan E (columns (h ! a)) to = Inr p" for p
    using many unfolding make_plan_get_fe [OF that] by auto
  have refused: "convert_chemistry_ref E h a to logdata renorm molecular
             = Inl (NotImplementedError ''Need to specify speciation for >1 Fe components.'')"
    if p: "make_plan E (columns (h ! a)) to = Inr p"
      and agg: "aggregate_all E (h @ [h ! a]) (length h) (to_aggregate p) logdata molecular = Inr (h1, d1)"
    for p h1 d1
    using p agg guard [OF p] by (simp add: convert_chemistry_ref_def alloc_def iron_redox_def)
  have "\<exists>e. convert_chemistry_ref E h a to logdata renorm molecular = Inl e"
  proof (cases "make_plan E (columns (h ! a)) to")
    case (Inl e)
    then show ?thesis by (simp add: convert_chemistry_ref_def alloc_def)
  next
    case (Inr p)
    show ?thesis
    proof (cases "aggregate_all E (h @ [h ! a]) (length h) (to_aggregate p) logdata molecular")
      case (Inl e)
      with Inr show ?thesis by (simp add: convert_chemistry_ref_def alloc_def)
    next
      case (Inr r)
      obtain h1 d1 where "r = (h1, d1)" by (cases r)
      with refused [OF \<open>make_plan E (columns (h ! a)) to = Inr p\<close>] Inr show ?thesis by blast
    qed
  qed
  with refused show ?thesis by blast
qed

theorem convert_chemistry_multiple_iron_witness:
  "convert_chemistry_ref env0 [table_mg] 0 [Name ''MgO'', Name ''FeO'', Name ''Fe2O3''] False False False
     = Inl (NotImplementedError ''Need to specify speciation for >1 Fe components.'')
   \<and> convert_chemistry_ref env0 [table_mg] 0
       [Coupled [(''FeO'', 1 / 2), (''Fe2O3'', 1 / 2)], Coupled [(''FeO'', 9 / 10), (''Fe2O3'', 1 / 10)]]
       False False False
     = Inl (NotImplementedError ''Need to specify speciation for >1 Fe components.'')"
proof
  let ?to = "[Name ''MgO'', Name ''FeO'', Name ''Fe2O3'']"
  have many: "1 < length (coupled_fe ?to)
      \<or> (coupled_fe ?to = [] \<and> 1 < length (missing_iron (columns ([table_mg] ! 0)) ?to))"
    by (simp add: coupled_fe_def missing_iron_def columns_def table_mg_def)
  obtain p where p: "make_plan env0 (columns ([table_mg] ! 0)) ?to = Inr p"
    and agg: "to_aggregate p = [''MgO'']"
    by (simp add: env0_simps frame_simps plan_simps table_mg_def Let_def cong: ebind_weak_cong)
  obtain h1 d1 where h1: "aggregate_all env0 ([table_mg] @ [[table_mg] ! 0]) (length [table_mg])
      (to_aggregate p) False False = Inr (h1, d1)"
    unfolding agg
    by (simp add: env0_simps frame_simps agg_simps heap_simps table_mg_def Let_def
      cong: ebind_weak_cong)
  from convert_chemistry_multiple_iron [OF many, of env0 False False False] p h1
  show "convert_chemistry_ref env0 [table_mg] 0 ?to False False False
     = Inl (NotImplementedError ''Need to specify speciation for >1 Fe components.'')"
    by blast
next
  let ?to = "[Coupled [(''FeO'', 1 / 2), (''Fe2O3'', 1 / 2)], Coupled [(''FeO'', 9 / 10), (''Fe2O3'', 1 / 10)]]"
  have many: "1 < length (coupled_fe ?to)
      \<or> (coupled_fe ?to = [] \<and> 1 < length (missing_iron (columns ([table_mg] ! 0)) ?to))"
    by (simp add: coupled_fe_def)
  obtain p where p: "make_plan env0 (columns ([table_mg] ! 0)) ?to = Inr p"
    and agg: "to_aggregate p = []"
    by (simp add: env0_simps frame_simps plan_simps table_mg_def Let_def cong: ebind_weak_cong)
  have h1: "aggregate_all env0 ([table_mg] @ [[table_mg] ! 0]) (length [table_mg])
      (to_aggregate p) False False = Inr ([table_mg, table_mg], 1)"
    unfolding agg by simp
  from convert_chemistry_multiple_iron [OF many, of env0 False False False] p h1
  show "convert_chemistry_ref env0 [table_mg] 0 ?to False False False
     = Inl (NotImplementedError ''Need to specify speciation for >1 Fe components.'')"
    by blast
qed

text \<open>Names with a \<^verbatim>\<open>/\<close> are ratios, not iron targets: two of them that contain
  \<^verbatim>\<open>Fe\<close> and are no column are both computed, and a table is returned.\<close>

lemma ratio_requests_return:
  "missing_iron (columns table0) [Name ''Mg/Fe'', Name ''Fe/Mg''] = []
   \<and> (\<exists>out. convert_chemistry env0 table0 [Name ''Mg/Fe'', Name ''Fe/Mg''] False False False = Inr out
        \<and> columns out = [''Depth'', ''Mg/Fe'', ''Fe/Mg''])"
  by (simp add: env0_simps frame_simps agg_simps ratio_simps lower_examples lower_Mg heap_simps plan_simps
      missing_iron_def table0_def Let_def cong: ebind_weak_cong)


text \<open>Two iron names that are not present, \<^verbatim>\<open>Fe\<close> and \<^verbatim>\<open>FeOT\<close>, requested next to
  one iron mapping: the mapping takes their place as the only iron target, and the call
  fails because the two names were not attained.\<close>

theorem convert_chemistry_multiple_iron_counterexample:
  "convert_chemistry env0 table_mg
     [Name ''Fe'', Name ''FeOT'', Coupled [(''FeO'', 9 / 10), (''Fe2O3'', 1 / 10)]] False False False
   = Inl (ColumnsNotAttained [''Fe'', ''FeOT''])"
  by (simp add: env0_simps frame_simps agg_simps heap_simps plan_simps table_mg_def Let_def
      cong: ebind_weak_cong)

section \<open>Which operations change the table they are given\<close>

lemma ebind_pair_Inr:
  "ebind m (\<lambda>(a, b). f a b) = Inr y \<longleftrightarrow> (\<exists>a b. m = Inr (a, b) \<and> f a b = Inr y)"
  by (cases m) auto

lemma aggregate_element_ref_frame:
  assumes "aggregate_element_ref E h d to suf l rn m = Inr (h', d')" "n \<le> d" "d < length h"
  shows "n \<le> d' \<and> d' < length h' \<and> (\<forall>b<n. h' ! b = h ! b)"
  using assms
  by (auto simp: aggregate_element_ref_def alloc_def Let_def ebind_pair_Inr nth_append
      split: if_splits)

lemma add_ratio_ref_frame:
  assumes "add_ratio_ref E h d ratio alias nt m = Inr (h', d')" "n \<le> d" "d < length h"
  shows "n \<le> d' \<and> d' < length h' \<and> (\<forall>b<n. h' ! b = h ! b)"
  using assms by (auto simp: add_ratio_ref_def ebind_pair_Inr)

lemma aggregate_all_frame:
  assumes "aggregate_all E h d items l m = Inr (h', d')" "n \<le> d" "d < length h"
  shows "n \<le> d' \<and> d' < length h' \<and> (\<forall>b<n. h' ! b = h ! b)"
  using assms
proof (induction items arbitrary: h d)
  case Nil
  then show ?case by simp
next
  case (Cons item items)
  from Cons.prems(1) obtain h1 d1 where
    1: "aggregate_element_ref E h d (Str item) ''T'' l False m = Inr (h1, d1)"
    and 2: "aggregate_all E h1 d1 items l m = Inr (h', d')"
    unfolding aggregate_all.simps ebind_pair_Inr by blast
  from aggregate_element_ref_frame [OF 1 Cons.prems(2,3)]
  have f1: "n \<le> d1" "d1 < length h1" "\<forall>b<n. h1 ! b = h ! b" by simp_all
  from Cons.IH [OF 2 f1(1,2)] f1(3) show ?case by simp
qed

lemma add_ratios_frame:
  assumes "add_ratios E h d rs m = Inr (h', d')" "n \<le> d" "d < length h"
  shows "n \<le> d' \<and> d' < length h' \<and> (\<forall>b<n. h' ! b = h ! b)"
  using assms
proof (induction rs arbitrary: h d)
  case Nil
  then show ?case by simp
next
  case (Cons r rs)
  from Cons.prems(1) obtain h1 d1 where
    1: "add_ratio_ref E h d r None NormNone m = Inr (h1, d1)"
    and 2: "add_ratios E h1 d1 rs m = Inr (h', d')"
    unfolding add_ratios.simps ebind_pair_Inr by blast
  from add_ratio_ref_frame [OF 1 Cons.prems(2,3)]
  have f1: "n \<le> d1" "d1 < length h1" "\<forall>b<n. h1 ! b = h ! b" by simp_all
  from Cons.IH [OF 2 f1(1,2)] f1(3) show ?case by simp
qed

lemma iron_redox_frame:
  assumes "iron_redox E h d p l m = Inr (h', d')" "n \<le> d" "d < length h"
  shows "n \<le> d' \<and> d' < length h' \<and> (\<forall>b<n. h' ! b = h ! b)"
proof (cases "get_fe p")
  case Nil
  then show ?thesis using assms by (simp add: iron_redox_def)
next
  case (Cons t ts)
  then have "aggregate_element_ref E h d t ''T'' l False m = Inr (h', d')"
    using assms(1) by (simp add: iron_redox_def recalculate_Fe_ref_def split: if_splits)
  from aggregate_element_ref_frame [OF this assms(2,3)] show ?thesis .
qed

lemma last_minute_checks_frame:
  assumes "last_minute_checks E h d p rn = Inr (h', d')" "n \<le> d" "d < length h"
  shows "n \<le> d' \<and> d' < length h' \<and> (\<forall>b<n. h' ! b = h ! b)"
  using assms
  by (auto simp: last_minute_checks_def Let_def alloc_def ebind_eq_Inr nth_append split: if_splits)

lemma convert_chemistry_ref_frame:
  assumes ok: "convert_chemistry_ref E h a to l rn m = Inr (h', r)"
  shows "length h \<le> r \<and> r < length h' \<and> (\<forall>b<length h. h' ! b = h ! b)"
proof -
  from ok obtain p h1 d1 h2 d2 h3 d3 where
    agg: "aggregate_all E (h @ [h ! a]) (length h) (to_aggregate p) l m = Inr (h1, d1)"
    and fe: "iron_redox E h1 d1 p l m = Inr (h2, d2)"
    and rat: "add_ratios E h2 d2 (ratios p) m = Inr (h3, d3)"
    and fin: "last_minute_checks E h3 d3 p rn = Inr (h', r)"
    by (auto simp: convert_chemistry_ref_def alloc_def Let_def ebind_eq_Inr split: prod.splits)
  have f1: "length h \<le> d1" "d1 < length h1" "\<forall>b<length h. h1 ! b = h ! b"
    using aggregate_all_frame [OF agg, of "length h"] by (simp_all add: nth_append)
  have f2: "length h \<le> d2" "d2 < length h2" "\<forall>b<length h. h2 ! b = h ! b"
    using iron_redox_frame [OF fe f1(1,2)] f1(3) by simp_all
  have f3: "length h \<le> d3" "d3 < length h3" "\<forall>b<length h. h3 ! b = h ! b"
    using add_ratios_frame [OF rat f2(1,2)] f2(3) by simp_all
  show ?thesis
    using last_minute_checks_frame [OF fin f3(1,2)] f3(3) by simp
qed

text \<open>\<^verbatim>\<open>aggregate_element\<close> without renormalisation: it writes into the table it was
  given when no column is dropped, and into a new table otherwise.\<close>

lemma aggregate_element_ref_in_place:
  assumes "aggregate_element_core E (h ! a) to suf l m = Inr ([], out)"
  shows "aggregate_element_ref E h a to suf l False m = Inr (h[a := out], a)"
  using assms by (simp add: aggregate_element_ref_def)

lemma aggregate_element_ref_dropped:
  assumes "aggregate_element_core E (h ! a) to suf l m = Inr (ds, out)" "ds \<noteq> []"
  shows "aggregate_element_ref E h a to suf l False m = Inr (h @ [out], length h)"
  using assms by (simp add: aggregate_element_ref_def alloc_def)

text \<open>
  C10, as the code has it. For a table at address \<open>a\<close>: \<^verbatim>\<open>convert_chemistry\<close> and
  \<^verbatim>\<open>lambda_lnREE\<close> leave it as it was and return a new table; \<^verbatim>\<open>add_ratio\<close> and
  \<^verbatim>\<open>add_MgNo\<close> return the table they were given, which now holds the new column.
\<close>

theorem table_mutation:
  assumes "a < length h"
  shows "(\<forall>h' r. convert_chemistry_ref E h a to logdata renorm molecular = Inr (h', r)
            \<longrightarrow> h' ! a = h ! a \<and> length h \<le> r \<and> r < length h')
       \<and> (\<forall>h' r. lambda_lnREE_ref E h a norm_to exclude params degree appnd scale = Inr (h', r)
            \<longrightarrow> h' ! a = h ! a \<and> r = length h)
       \<and> (\<forall>h' r. add_ratio_ref E h a ratio alias norm_to' molecular' = Inr (h', r)
            \<longrightarrow> r = a \<and> (\<exists>name col. ratio_column E (h ! a) ratio alias norm_to' molecular' = Inr (name, col)
                            \<and> h' ! a = setcol (h ! a) name col))
       \<and> (\<forall>h' r. add_MgNo_ref E h a molecular'' use_total_approx approx_frac name' = Inr (h', r)
            \<longrightarrow> r = a \<and> (\<exists>col. h' ! a = setcol (h ! a) name' col))"
proof -
  have 1: "\<forall>h' r. convert_chemistry_ref E h a to logdata renorm molecular = Inr (h', r)
            \<longrightarrow> h' ! a = h ! a \<and> length h \<le> r \<and> r < length h'"
    using convert_chemistry_ref_frame assms by blast
  have 2: "\<forall>h' r. lambda_lnREE_ref E h a norm_to exclude params degree appnd scale = Inr (h', r)
            \<longrightarrow> h' ! a = h ! a \<and> r = length h"
    using assms by (auto simp: lambda_lnREE_ref_def alloc_def ebind_eq_Inr nth_append)
  have 3: "\<forall>h' r. add_ratio_ref E h a ratio alias norm_to' molecular' = Inr (h', r)
            \<longrightarrow> r = a \<and> (\<exists>name col. ratio_column E (h ! a) ratio alias norm_to' molecular' = Inr (name, col)
                            \<and> h' ! a = setcol (h ! a) name col)"
    using assms by (auto simp: add_ratio_ref_def ebind_eq_Inr)
  have 4: "\<forall>h' r. add_MgNo_ref E h a molecular'' use_total_approx approx_frac name' = Inr (h', r)
            \<longrightarrow> r = a \<and> (\<exists>col. h' ! a = setcol (h ! a) name' col)"
    using assms by (auto simp: add_MgNo_ref_def ebind_eq_Inr)
  from 1 2 3 4 show ?thesis by (intro conjI)
qed

theorem table_mutation_witness:
  "(\<exists>h' r. convert_chemistry_ref env0 [table0] 0 [Name ''MgO'', Name ''Mg/Fe''] False False False
              = Inr (h', r) \<and> h' ! 0 = table0 \<and> 1 \<le> r)
   \<and> (\<exists>h' r col. add_MgNo_ref env0 [table0] 0 False False (1 / 10) ''Mg#'' = Inr (h', r) \<and> r = 0
         \<and> h' ! 0 = setcol table0 ''Mg#'' col)"
proof -
  have a: "0 < length [table0]" by simp
  obtain h1 r1 where c: "convert_chemistry_ref env0 [table0] 0 [Name ''MgO'', Name ''Mg/Fe''] False False False
      = Inr (h1, r1)"
    by (simp add: env0_simps frame_simps agg_simps split_on.simps lower_examples ratio_simps
        heap_simps plan_simps table0_def Let_def
        cong: ebind_weak_cong)
  obtain h2 r2 where m: "add_MgNo_ref env0 [table0] 0 False False (1 / 10) ''Mg#'' = Inr (h2, r2)"
    by (simp add: env0_simps frame_simps agg_simps mgno_simps heap_simps table0_def Let_def
        cong: ebind_weak_cong)
  from table_mutation [OF a, where E = env0 and to = "[Name ''MgO'', Name ''Mg/Fe'']"
      and logdata = False and renorm = False and molecular = False
      and molecular'' = False and use_total_approx = False and approx_frac = "1 / 10"
      and name' = "''Mg#''"] c m
  show ?thesis by auto
qed

text \<open>After \<^verbatim>\<open>add_ratio\<close> the table passed in has a fourth column.\<close>

theorem table_mutation_counterexample:
  "\<exists>h' r. add_ratio_ref env0 [table0] 0 ''Mg/Fe'' None NormNone True = Inr (h', r) \<and> r = 0
     \<and> columns ([table0] ! 0) = [''MgO'', ''FeO'', ''Depth'']
     \<and> columns (h' ! 0) = [''MgO'', ''FeO'', ''Depth'', ''Mg/Fe'']"
  by (simp add: env0_simps frame_simps agg_simps heap_simps lower_examples ratio_simps table0_def
      Let_def cong: ebind_weak_cong)

end
